theory Spec2Isabelle
  imports Complex_Main
begin

section \<open>Data model of the market data adapter\<close>

text \<open>
  The embedding follows \<^verbatim>\<open>src/market_data_adapter/market_data_adapter.py\<close> and
  \<^verbatim>\<open>src/market_data_adapter/models.py\<close>. The broker library (its connection object,
  contracts and tickers) is not part of the repository: its objects are modelled by the
  attributes the adapter reads, and its behaviour is a parameter of the model.
\<close>

type_synonym datetime = string

text \<open>A value the feed stores in a numeric attribute: \<^verbatim>\<open>None\<close>, the float
  not-a-number, another float, or an integer.\<close>

datatype pyval = PyNone | PyNaN | PyFloat real | PyInt int

text \<open>A float as a validated message field holds it.\<close>

datatype pyfloat = NaN | Finite real

text \<open>Two conversions of the language and of the validation library behind
  \<^verbatim>\<open>BaseModel\<close>, neither of them part of the repository, are parameters of the model:
  \<open>lib_float_of_int\<close> is \<^verbatim>\<open>float(i)\<close> on an integer (\<open>None\<close> where it raises
  OverflowError, a rounded value where the integer has no exact float), and
  \<open>lib_int_of_float\<close> is the validation of a float for a field of type \<^verbatim>\<open>int\<close>
  (\<open>None\<close> where the library rejects the float).\<close>

record pylib =
  lib_float_of_int :: "int \<Rightarrow> real option"
  lib_int_of_float :: "real \<Rightarrow> int option"

record Contract =
  secType :: string
  con_symbol :: string
  exchange :: string
  currency :: string

text \<open>One entry of \<^verbatim>\<open>ticker.tickByTicks\<close>, by the attributes the monitor reads. For
  \<open>tick_price\<close>, \<open>tick_size\<close> and the two attribute objects, \<open>None\<close> says that the
  tick object has no such attribute (ticks of other kinds than trades carry no
  \<^verbatim>\<open>price\<close> and no \<^verbatim>\<open>size\<close>); an attribute object that is there is given by its
  dictionary.\<close>

record Tick =
  tick_time :: "datetime option"
  tick_price :: "pyval option"
  tick_size :: "pyval option"
  tickAttribLast :: "(string \<times> bool) list option"
  tickAttrib :: "(string \<times> bool) list option"

text \<open>One level of \<^verbatim>\<open>ticker.domBids\<close> or \<^verbatim>\<open>ticker.domAsks\<close>, with the values the feed
  stores in it.\<close>

record DOMLevel =
  dom_price :: pyval
  dom_size :: pyval

text \<open>The ticker object. The feed updates its attributes in place; a monitor that polls
  it sees one value of this record per poll.\<close>

record Ticker =
  contract :: "Contract option"
  bid :: pyval
  ask :: pyval
  last_val :: pyval
  volume :: pyval
  time :: "datetime option"
  tickByTicks :: "Tick list"
  domBids :: "DOMLevel list"
  domAsks :: "DOMLevel list"

subsection \<open>Messages (models.py)\<close>

record TopOfBookMessage =
  tob_event_type :: string
  tob_symbol :: string
  tob_bid :: "real option"
  tob_ask :: "real option"
  tob_last :: "real option"
  tob_volume :: "int option"
  tob_timestamp :: "datetime option"

record TickByTickMessage =
  tbt_event_type :: string
  tbt_symbol :: string
  tbt_time :: "datetime option"
  tbt_price :: "pyfloat option"
  tbt_size :: "int option"
  tbt_tickAttrib :: "(string \<times> bool) list option"

record MarketDepthMessage =
  md_event_type :: string
  md_symbol :: string
  md_position :: nat
  md_operation :: int
  md_side :: int
  md_price :: pyfloat
  md_size :: int

datatype error =
    ValueError string
  | AttributeError
  | OverflowError
  | ValidationError
  | FeedError string

subsection \<open>Validation of message fields\<close>

text \<open>What the construction of a message does with the value given for a field of the
  declared type \<^verbatim>\<open>float\<close>, \<^verbatim>\<open>Optional[float]\<close>, \<^verbatim>\<open>int\<close> or \<^verbatim>\<open>Optional[int]\<close>: a
  field that is not optional rejects \<^verbatim>\<open>None\<close>, a float field takes a float as it is
  (not-a-number too) and converts an integer, an integer field takes an integer as it is,
  rejects not-a-number and leaves another float to the library's conversion.\<close>

fun validate_float :: "pylib \<Rightarrow> pyval \<Rightarrow> error + pyfloat" where
  "validate_float L PyNone = Inl ValidationError"
| "validate_float L PyNaN = Inr NaN"
| "validate_float L (PyFloat r) = Inr (Finite r)"
| "validate_float L (PyInt i) =
     (case lib_float_of_int L i of None \<Rightarrow> Inl ValidationError | Some r \<Rightarrow> Inr (Finite r))"

fun validate_optional_float :: "pylib \<Rightarrow> pyval \<Rightarrow> error + pyfloat option" where
  "validate_optional_float L PyNone = Inr None"
| "validate_optional_float L v =
     (case validate_float L v of Inl e \<Rightarrow> Inl e | Inr f \<Rightarrow> Inr (Some f))"

fun validate_int :: "pylib \<Rightarrow> pyval \<Rightarrow> error + int" where
  "validate_int L PyNone = Inl ValidationError"
| "validate_int L PyNaN = Inl ValidationError"
| "validate_int L (PyFloat r) =
     (case lib_int_of_float L r of None \<Rightarrow> Inl ValidationError | Some n \<Rightarrow> Inr n)"
| "validate_int L (PyInt i) = Inr i"

fun validate_optional_int :: "pylib \<Rightarrow> pyval \<Rightarrow> error + int option" where
  "validate_optional_int L PyNone = Inr None"
| "validate_optional_int L v =
     (case validate_int L v of Inl e \<Rightarrow> Inl e | Inr n \<Rightarrow> Inr (Some n))"

section \<open>The poll-based quote monitor\<close>

text \<open>\<^verbatim>\<open>safe_float\<close>: \<^verbatim>\<open>None\<close> and not-a-number give \<^verbatim>\<open>None\<close>; on anything else
  \<^verbatim>\<open>float(value)\<close> is called, which can raise on an integer.\<close>

fun safe_float :: "pylib \<Rightarrow> pyval \<Rightarrow> error + real option" where
  "safe_float L PyNone = Inr None"
| "safe_float L PyNaN = Inr None"
| "safe_float L (PyFloat r) = Inr (Some r)"
| "safe_float L (PyInt i) =
     (case lib_float_of_int L i of None \<Rightarrow> Inl OverflowError | Some r \<Rightarrow> Inr (Some r))"

text \<open>The dictionary \<^verbatim>\<open>normalize_ticker\<close> returns, one field per key.\<close>

record snapshot_dict =
  sd_event_type :: string
  sd_symbol :: "string option"
  sd_bid :: "real option"
  sd_ask :: "real option"
  sd_last :: "real option"
  sd_volume :: "real option"
  sd_timestamp :: "datetime option"

text \<open>The values of the dictionary are computed in the order of its keys; the first
  \<^verbatim>\<open>safe_float\<close> that raises ends the call.\<close>

definition normalize_ticker :: "pylib \<Rightarrow> Ticker \<Rightarrow> error + snapshot_dict" where
  "normalize_ticker L ticker =
     (case safe_float L (bid ticker) of Inl e \<Rightarrow> Inl e | Inr b \<Rightarrow>
      (case safe_float L (ask ticker) of Inl e \<Rightarrow> Inl e | Inr a \<Rightarrow>
       (case safe_float L (last_val ticker) of Inl e \<Rightarrow> Inl e | Inr l \<Rightarrow>
        (case safe_float L (volume ticker) of Inl e \<Rightarrow> Inl e | Inr v \<Rightarrow>
           Inr \<lparr> sd_event_type = ''top_of_book'',
                 sd_symbol = (case contract ticker of Some c \<Rightarrow> Some (con_symbol c) | None \<Rightarrow> None),
                 sd_bid = b, sd_ask = a, sd_last = l, sd_volume = v,
                 sd_timestamp = time ticker \<rparr>))))"

text \<open>\<^verbatim>\<open>TopOfBookMessage(**snapshot_dict)\<close>. The field \<^verbatim>\<open>symbol: str\<close> rejects
  \<^verbatim>\<open>None\<close>. The field \<^verbatim>\<open>volume: Optional[int]\<close> receives a float, which the library
  converts or rejects.\<close>

definition new_TopOfBookMessage :: "pylib \<Rightarrow> snapshot_dict \<Rightarrow> error + TopOfBookMessage" where
  "new_TopOfBookMessage L d =
     (case sd_symbol d of
        None \<Rightarrow> Inl ValidationError
      | Some sy \<Rightarrow>
          (case sd_volume d of
             None \<Rightarrow>
               Inr \<lparr> tob_event_type = sd_event_type d, tob_symbol = sy,
                     tob_bid = sd_bid d, tob_ask = sd_ask d, tob_last = sd_last d,
                     tob_volume = None, tob_timestamp = sd_timestamp d \<rparr>
           | Some v \<Rightarrow>
               (case lib_int_of_float L v of
                  None \<Rightarrow> Inl ValidationError
                | Some n \<Rightarrow>
                    Inr \<lparr> tob_event_type = sd_event_type d, tob_symbol = sy,
                          tob_bid = sd_bid d, tob_ask = sd_ask d, tob_last = sd_last d,
                          tob_volume = Some n, tob_timestamp = sd_timestamp d \<rparr>)))"

text \<open>The first two statements of the \<^verbatim>\<open>try\<close> block of \<^verbatim>\<open>monitor()\<close>: the snapshot
  of the ticker, or the exception raised on the way.\<close>

definition read_snapshot :: "pylib \<Rightarrow> Ticker \<Rightarrow> error + TopOfBookMessage" where
  "read_snapshot L ticker =
     (case normalize_ticker L ticker of
        Inl e \<Rightarrow> Inl e
      | Inr d \<Rightarrow> new_TopOfBookMessage L d)"

text \<open>The local state of one \<^verbatim>\<open>monitor()\<close> task: the variable \<^verbatim>\<open>prev_snapshot\<close>,
  the snapshots it has handed to \<^verbatim>\<open>queue.put\<close> (oldest first) and the number of
  warnings it has logged.\<close>

record monitor_state =
  prev_snapshot :: "TopOfBookMessage option"
  emitted :: "TopOfBookMessage list"
  warnings :: nat

definition monitor_init :: monitor_state where
  "monitor_init = \<lparr> prev_snapshot = None, emitted = [], warnings = 0 \<rparr>"

text \<open>One pass through the body of \<^verbatim>\<open>while True\<close>, on the ticker as it is at that
  poll. An exception of the \<^verbatim>\<open>try\<close> block is logged and the loop goes on.\<close>

definition monitor_cycle :: "pylib \<Rightarrow> monitor_state \<Rightarrow> Ticker \<Rightarrow> monitor_state" where
  "monitor_cycle L st ticker =
     (case read_snapshot L ticker of
        Inl e \<Rightarrow> st\<lparr> warnings := Suc (warnings st) \<rparr>
      | Inr snapshot \<Rightarrow>
          (if Some snapshot \<noteq> prev_snapshot st
           then st\<lparr> prev_snapshot := Some snapshot, emitted := emitted st @ [snapshot] \<rparr>
           else st))"

definition monitor :: "pylib \<Rightarrow> monitor_state \<Rightarrow> Ticker list \<Rightarrow> monitor_state" where
  "monitor L st reads = foldl (monitor_cycle L) st reads"

section \<open>The incremental-list monitor\<close>

text \<open>\<^verbatim>\<open>str.lower()\<close> on the letters A to Z (codes 65 to 90).\<close>

definition lower_char :: "char \<Rightarrow> char" where
  "lower_char c =
     (if (65::nat) \<le> of_char c \<and> of_char c \<le> (90::nat)
      then char_of (of_char c + (32::nat)) else c)"

text \<open>\<^verbatim>\<open>TickByTickMessage(...)\<close> for one tick. The arguments are evaluated first: reading
  \<^verbatim>\<open>tick.price\<close> or \<^verbatim>\<open>tick.size\<close> on a tick without that attribute raises
  AttributeError. Then the fields are validated: \<^verbatim>\<open>price: Optional[float]\<close> and
  \<^verbatim>\<open>size: Optional[int]\<close>.\<close>

definition new_TickByTickMessage ::
  "pylib \<Rightarrow> string \<Rightarrow> string \<Rightarrow> Tick \<Rightarrow> error + TickByTickMessage" where
  "new_TickByTickMessage L symbol tickType tick =
     (case tick_price tick of
        None \<Rightarrow> Inl AttributeError
      | Some price \<Rightarrow>
          (case tick_size tick of
             None \<Rightarrow> Inl AttributeError
           | Some sz \<Rightarrow>
               (case validate_optional_float L price of
                  Inl e \<Rightarrow> Inl e
                | Inr p \<Rightarrow>
                    (case validate_optional_int L sz of
                       Inl e \<Rightarrow> Inl e
                     | Inr n \<Rightarrow>
                         Inr \<lparr> tbt_event_type = ''tick_by_tick_'' @ map lower_char tickType,
                               tbt_symbol = symbol,
                               tbt_time = tick_time tick,
                               tbt_price = p,
                               tbt_size = n,
                               tbt_tickAttrib =
                                 (case tickAttribLast tick of
                                    Some d \<Rightarrow> Some d
                                  | None \<Rightarrow> tickAttrib tick) \<rparr>))))"

text \<open>The local state of one \<^verbatim>\<open>monitor_ticks()\<close> task: the variable
  \<^verbatim>\<open>last_processed_count\<close>, the messages handed to \<^verbatim>\<open>queue.put\<close>, and the exception
  that has ended the task, if one has: the loop has no \<^verbatim>\<open>try\<close>.\<close>

record ticks_state =
  last_processed_count :: nat
  ticks_emitted :: "TickByTickMessage list"
  ticks_failed :: "error option"

definition monitor_ticks_init :: ticks_state where
  "monitor_ticks_init = \<lparr> last_processed_count = 0, ticks_emitted = [], ticks_failed = None \<rparr>"

text \<open>The loop \<^verbatim>\<open>for tick in new_ticks\<close>: each tick's message is constructed and put;
  a construction that raises ends the loop with the messages put so far.\<close>

fun put_ticks ::
  "pylib \<Rightarrow> string \<Rightarrow> string \<Rightarrow> Tick list \<Rightarrow> TickByTickMessage list
     \<Rightarrow> TickByTickMessage list \<times> error option" where
  "put_ticks L symbol tickType [] out = (out, None)"
| "put_ticks L symbol tickType (tick # new_ticks) out =
     (case new_TickByTickMessage L symbol tickType tick of
        Inl e \<Rightarrow> (out, Some e)
      | Inr message \<Rightarrow> put_ticks L symbol tickType new_ticks (out @ [message]))"

text \<open>One pass through the body of \<^verbatim>\<open>while True\<close>. The pass reads
  \<^verbatim>\<open>ticker.tickByTicks\<close> at two moments: when it tests the length and takes the slice
  (\<open>fst poll\<close>), and, after the puts, when it sets the cursor to the length the list has
  then (\<open>snd poll\<close>). A put on a full queue suspends the task, and the feed can append to
  the list meanwhile. A task that an exception has ended does nothing any more.\<close>

definition monitor_ticks_cycle ::
  "pylib \<Rightarrow> string \<Rightarrow> string \<Rightarrow> ticks_state \<Rightarrow> Tick list \<times> Tick list \<Rightarrow> ticks_state" where
  "monitor_ticks_cycle L symbol tickType st poll =
     (case ticks_failed st of
        Some e \<Rightarrow> st
      | None \<Rightarrow>
          (if fst poll \<noteq> [] \<and> length (fst poll) > last_processed_count st
           then
             (case put_ticks L symbol tickType
                     (drop (last_processed_count st) (fst poll)) (ticks_emitted st) of
                (out, Some e) \<Rightarrow> st\<lparr> ticks_emitted := out, ticks_failed := Some e \<rparr>
              | (out, None) \<Rightarrow>
                  st\<lparr> last_processed_count := length (snd poll), ticks_emitted := out \<rparr>)
           else st))"

definition monitor_ticks ::
  "pylib \<Rightarrow> string \<Rightarrow> string \<Rightarrow> ticks_state \<Rightarrow> (Tick list \<times> Tick list) list \<Rightarrow> ticks_state" where
  "monitor_ticks L symbol tickType st polls =
     foldl (monitor_ticks_cycle L symbol tickType) st polls"

text \<open>A poll during which the list does not change: both reads see the same list.\<close>

definition steady :: "Tick list \<Rightarrow> Tick list \<times> Tick list" where
  "steady ticks = (ticks, ticks)"

text \<open>A list of polls in which the tick list only grows: each observed list extends the
  one before it.\<close>

fun extends :: "'a list \<Rightarrow> 'a list \<Rightarrow> bool" where
  "extends [] ys = True"
| "extends (x # xs) [] = False"
| "extends (x # xs) (y # ys) = (x = y \<and> extends xs ys)"

fun grows_from :: "'a list \<Rightarrow> 'a list list \<Rightarrow> bool" where
  "grows_from cur [] = True"
| "grows_from cur (nxt # rest) = (extends cur nxt \<and> grows_from nxt rest)"

section \<open>The depth callback\<close>

text \<open>\<^verbatim>\<open>MarketDepthMessage(...)\<close> for the level of rank \<open>i\<close> of one side, with the fields
  \<^verbatim>\<open>price: float\<close> and \<^verbatim>\<open>size: int\<close> validated.\<close>

definition new_MarketDepthMessage ::
  "pylib \<Rightarrow> string \<Rightarrow> nat \<Rightarrow> int \<Rightarrow> DOMLevel \<Rightarrow> error + MarketDepthMessage" where
  "new_MarketDepthMessage L symbol i side level =
     (case validate_float L (dom_price level) of
        Inl e \<Rightarrow> Inl e
      | Inr p \<Rightarrow>
          (case validate_int L (dom_size level) of
             Inl e \<Rightarrow> Inl e
           | Inr n \<Rightarrow>
               Inr \<lparr> md_event_type = ''market_depth'', md_symbol = symbol, md_position = i,
                     md_operation = 1, md_side = side, md_price = p, md_size = n \<rparr>))"

text \<open>One of the two loops of the callback, over \<^verbatim>\<open>enumerate(levels)\<close> from rank \<open>i\<close>
  on: each level's message is constructed and a \<^verbatim>\<open>queue.put\<close> task is created for it.
  There is no \<^verbatim>\<open>try\<close>: a construction that raises ends the callback with the tasks
  created so far.\<close>

fun put_levels ::
  "pylib \<Rightarrow> string \<Rightarrow> int \<Rightarrow> nat \<Rightarrow> DOMLevel list \<Rightarrow> MarketDepthMessage list
     \<Rightarrow> MarketDepthMessage list \<times> error option" where
  "put_levels L symbol side i [] out = (out, None)"
| "put_levels L symbol side i (level # levels) out =
     (case new_MarketDepthMessage L symbol i side level of
        Inl e \<Rightarrow> (out, Some e)
      | Inr message \<Rightarrow> put_levels L symbol side (Suc i) levels (out @ [message]))"

text \<open>\<^verbatim>\<open>on_depth_update(ticker)\<close>: the messages for which a \<^verbatim>\<open>queue.put\<close> task is
  created, in the order of creation, and the exception the callback raises, if any.\<close>

definition on_depth_update ::
  "pylib \<Rightarrow> string \<Rightarrow> Ticker \<Rightarrow> MarketDepthMessage list \<times> error option" where
  "on_depth_update L symbol ticker =
     (case put_levels L symbol 0 0 (domBids ticker) [] of
        (out, Some e) \<Rightarrow> (out, Some e)
      | (out, None) \<Rightarrow> put_levels L symbol 1 0 (domAsks ticker) out)"

definition on_smart_depth_update ::
  "pylib \<Rightarrow> string \<Rightarrow> Ticker \<Rightarrow> MarketDepthMessage list \<times> error option" where
  "on_smart_depth_update L symbol ticker =
     (case put_levels L symbol 0 0 (domBids ticker) [] of
        (out, Some e) \<Rightarrow> (out, Some e)
      | (out, None) \<Rightarrow> put_levels L symbol 1 0 (domAsks ticker) out)"

section \<open>The adapter\<close>

subsection \<open>The remaining messages and the output queue\<close>

text \<open>A bar as the feed returns it; \<^verbatim>\<open>barCount\<close> and \<^verbatim>\<open>average\<close> are read with
  \<^verbatim>\<open>getattr(bar, ..., None)\<close>.\<close>

record BarData =
  bd_date :: datetime
  bd_open :: real
  bd_high :: real
  bd_low :: real
  bd_close :: real
  bd_volume :: int
  bd_barCount :: "int option"
  bd_average :: "real option"

record HistoricalBar =
  hb_date :: datetime
  hb_open :: real
  hb_high :: real
  hb_low :: real
  hb_close :: real
  hb_volume :: int
  hb_barCount :: "int option"
  hb_average :: "real option"

record HistoricalDataResponse =
  hd_event_type :: string
  hd_symbol :: string
  hd_bars :: "HistoricalBar list"

record FundamentalDataResponse =
  fd_event_type :: string
  fd_symbol :: string
  fd_report_type :: string
  fd_data :: string

record FundamentalRatiosResponse =
  fr_event_type :: string
  fr_symbol :: string
  fr_data :: string

datatype message =
    TopOfBook TopOfBookMessage
  | TickByTick TickByTickMessage
  | MarketDepth MarketDepthMessage
  | HistoricalData HistoricalDataResponse
  | FundamentalData FundamentalDataResponse
  | FundamentalRatios FundamentalRatiosResponse

subsection \<open>The connection object\<close>

text \<open>The methods of the connection object \<^verbatim>\<open>self.ib\<close> that the adapter calls.\<close>

datatype feed_call =
    ConnectAsync string int int
  | Disconnect
  | ReqMktData Contract
  | ReqTickByTickData Contract string
  | ReqMktDepth Contract int bool
  | CancelMktData Contract
  | CancelMktDepth Contract bool
  | ReqHistoricalDataAsync Contract string string string bool
  | ReqFundamentalDataAsync Contract string

text \<open>The behaviour of the feed, a parameter of every operation. Given the calls the
  connection object has received so far and the next call, \<open>feed_raises\<close> says whether
  that call raises (and what), and the other fields give what it returns when it does not.\<close>

record feed =
  feed_raises :: "feed_call list \<Rightarrow> feed_call \<Rightarrow> error option"
  feed_ticker :: "feed_call list \<Rightarrow> feed_call \<Rightarrow> Ticker"
  feed_bars :: "feed_call list \<Rightarrow> feed_call \<Rightarrow> BarData list"
  feed_data :: "feed_call list \<Rightarrow> feed_call \<Rightarrow> string"

datatype level = INFO | WARNING

text \<open>A task made by \<^verbatim>\<open>asyncio.create_task\<close> for a monitor coroutine, with the
  variables the coroutine closes over. The adapter keeps no reference to it.\<close>

datatype task =
    MonitorTask string Ticker
  | MonitorTicksTask string string Ticker

text \<open>A callback added to \<^verbatim>\<open>ticker.updateEvent\<close>, with the symbol it closes over.\<close>

datatype handler =
    OnDepthUpdate string
  | OnSmartDepthUpdate string

text \<open>The fields of \<^verbatim>\<open>MarketDataAdapter\<close>, and what its methods do outside the object:
  \<open>ib\<close> is \<open>None\<close> or the connection object, given by the calls it has received, oldest
  first; \<open>tasks\<close> are the monitor tasks created (none is ever cancelled by the adapter);
  \<open>update_handlers\<close> are the callbacks added to tickers; \<open>log\<close> is what went to the logger.
  A dictionary that is iterated is a list of pairs in insertion order. A \<^verbatim>\<open>queue.put\<close>
  appends to \<open>queue\<close>; the suspension of a producer on a full queue is not modelled.\<close>

record adapter =
  host :: string
  port :: int
  client_id :: int
  ib :: "feed_call list option"
  contracts :: "string \<rightharpoonup> Contract"
  queue_maxsize :: int
  queue :: "message list"
  ticker_subs :: "(string \<times> Ticker) list"
  l2_depth_subs :: "(string \<times> Ticker) list"
  tasks :: "task list"
  update_handlers :: "(Ticker \<times> handler) list"
  log :: "(level \<times> string) list"

definition adapter_init :: "string \<Rightarrow> int \<Rightarrow> int \<Rightarrow> int \<Rightarrow> adapter" where
  "adapter_init h p cid maxsize =
     \<lparr> host = h, port = p, client_id = cid, ib = None, contracts = Map.empty,
       queue_maxsize = maxsize, queue = [], ticker_subs = [], l2_depth_subs = [],
       tasks = [], update_handlers = [], log = [] \<rparr>"

definition log_info :: "string \<Rightarrow> adapter \<Rightarrow> adapter" where
  "log_info msg s = s\<lparr> log := log s @ [(INFO, msg)] \<rparr>"

definition log_warning :: "string \<Rightarrow> adapter \<Rightarrow> adapter" where
  "log_warning msg s = s\<lparr> log := log s @ [(WARNING, msg)] \<rparr>"

definition queue_put :: "message \<Rightarrow> adapter \<Rightarrow> adapter" where
  "queue_put m s = s\<lparr> queue := queue s @ [m] \<rparr>"

text \<open>\<^verbatim>\<open>d[k] = v\<close> on a dictionary: a present key keeps its place and gets the new
  value, a new key goes last.\<close>

fun dict_set :: "'k \<Rightarrow> 'v \<Rightarrow> ('k \<times> 'v) list \<Rightarrow> ('k \<times> 'v) list" where
  "dict_set k v [] = [(k, v)]"
| "dict_set k v ((k', v') # rest) =
     (if k' = k then (k, v) # rest else (k', v') # dict_set k v rest)"

text \<open>\<^verbatim>\<open>str(e)\<close> of an exception.\<close>

fun error_text :: "error \<Rightarrow> string" where
  "error_text (ValueError msg) = msg"
| "error_text AttributeError = ''NoneType object has no attribute''"
| "error_text ValidationError = ''validation error''"
| "error_text (FeedError msg) = msg"

text \<open>A method call \<^verbatim>\<open>self.ib.m(...)\<close>. On \<^verbatim>\<open>None\<close> the attribute lookup raises. Otherwise
  the connection object receives the call, and the feed decides whether it raises or
  returns; \<open>ret\<close> selects the kind of value returned.\<close>

definition ib_request ::
  "feed \<Rightarrow> (feed_call list \<Rightarrow> feed_call \<Rightarrow> 'a) \<Rightarrow> feed_call \<Rightarrow> adapter \<Rightarrow> adapter \<times> (error + 'a)" where
  "ib_request fd ret c s =
     (case ib s of
        None \<Rightarrow> (s, Inl AttributeError)
      | Some cs \<Rightarrow>
          (s\<lparr> ib := Some (cs @ [c]) \<rparr>,
           (case feed_raises fd cs c of Some e \<Rightarrow> Inl e | None \<Rightarrow> Inr (ret cs c))))"

definition no_value :: "feed_call list \<Rightarrow> feed_call \<Rightarrow> unit" where
  "no_value cs c = ()"

subsection \<open>Connection and contracts\<close>

definition connect :: "feed \<Rightarrow> adapter \<Rightarrow> adapter \<times> error option" where
  "connect fd s =
     (case ib_request fd no_value (ConnectAsync (host s) (port s) (client_id s))
             ((log_info ''Connecting to IBKR...'' s)\<lparr> ib := Some [] \<rparr>) of
        (s1, Inl e) \<Rightarrow> (s1, Some e)
      | (s1, Inr u) \<Rightarrow> (log_info ''Connected.'' s1, None))"

definition Stock :: "string \<Rightarrow> string \<Rightarrow> string \<Rightarrow> Contract" where
  "Stock sy exch cur =
     \<lparr> secType = ''STK'', con_symbol = sy, exchange = exch, currency = cur \<rparr>"

definition contract_repr :: "Contract \<Rightarrow> string" where
  "contract_repr c =
     ''Stock(symbol='' @ con_symbol c @ '', exchange='' @ exchange c
       @ '', currency='' @ currency c @ '')''"

fun define_contracts :: "adapter \<Rightarrow> string list \<Rightarrow> string \<Rightarrow> string \<Rightarrow> adapter" where
  "define_contracts s [] exch cur = s"
| "define_contracts s (sy # symbol_list) exch cur =
     define_contracts
       (log_info (''Defined contract for '' @ sy @ '': '' @ contract_repr (Stock sy exch cur))
          (s\<lparr> contracts := (contracts s)(sy \<mapsto> Stock sy exch cur) \<rparr>))
       symbol_list exch cur"

subsection \<open>Teardown\<close>

text \<open>The \<^verbatim>\<open>try\<close> block of the first loop of \<^verbatim>\<open>cleanup_subscriptions\<close> for one entry:
  it returns the exception it raises, if any.\<close>

definition cancel_mkt_data_entry :: "feed \<Rightarrow> string \<times> Ticker \<Rightarrow> adapter \<Rightarrow> adapter \<times> error option" where
  "cancel_mkt_data_entry fd entry s =
     (case contract (snd entry) of
        None \<Rightarrow> (s, None)
      | Some c \<Rightarrow>
          (case ib_request fd no_value (CancelMktData c) s of
             (s1, Inl e) \<Rightarrow> (s1, Some e)
           | (s1, Inr u) \<Rightarrow>
               (log_info (''Cancelled market data subscription for '' @ fst entry) s1, None)))"

text \<open>The body of the first loop: the \<^verbatim>\<open>try\<close> block with its \<^verbatim>\<open>except Exception\<close>.\<close>

definition cleanup_mkt_data_entry :: "feed \<Rightarrow> adapter \<Rightarrow> string \<times> Ticker \<Rightarrow> adapter" where
  "cleanup_mkt_data_entry fd s entry =
     (case cancel_mkt_data_entry fd entry s of
        (s1, None) \<Rightarrow> s1
      | (s1, Some e) \<Rightarrow>
          log_warning (''Error cancelling market data subscription for '' @ fst entry
                         @ '': '' @ error_text e) s1)"

definition cancel_mkt_depth_entry :: "feed \<Rightarrow> string \<times> Ticker \<Rightarrow> adapter \<Rightarrow> adapter \<times> error option" where
  "cancel_mkt_depth_entry fd entry s =
     (case contract (snd entry) of
        None \<Rightarrow> (s, None)
      | Some c \<Rightarrow>
          (case ib_request fd no_value (CancelMktDepth c False) s of
             (s1, Inl e) \<Rightarrow> (s1, Some e)
           | (s1, Inr u) \<Rightarrow>
               (log_info (''Cancelled market depth subscription for '' @ fst entry) s1, None)))"

definition cleanup_mkt_depth_entry :: "feed \<Rightarrow> adapter \<Rightarrow> string \<times> Ticker \<Rightarrow> adapter" where
  "cleanup_mkt_depth_entry fd s entry =
     (case cancel_mkt_depth_entry fd entry s of
        (s1, None) \<Rightarrow> s1
      | (s1, Some e) \<Rightarrow>
          log_warning (''Error cancelling market depth subscription for '' @ fst entry
                         @ '': '' @ error_text e) s1)"

text \<open>Neither loop changes the dictionary it iterates; both are cleared at the end.\<close>

definition cleanup_subscriptions :: "feed \<Rightarrow> adapter \<Rightarrow> adapter \<times> error option" where
  "cleanup_subscriptions fd s =
     (let s1 = foldl (cleanup_mkt_data_entry fd) s (ticker_subs s);
          s2 = foldl (cleanup_mkt_depth_entry fd) s1 (l2_depth_subs s)
      in (s2\<lparr> ticker_subs := [], l2_depth_subs := [] \<rparr>, None))"

definition disconnect :: "feed \<Rightarrow> adapter \<Rightarrow> adapter \<times> error option" where
  "disconnect fd s =
     (case ib s of
        None \<Rightarrow> (s, None)
      | Some cs \<Rightarrow>
          (case cleanup_subscriptions fd s of
             (s1, Some e) \<Rightarrow> (s1, Some e)
           | (s1, None) \<Rightarrow>
               (case ib_request fd no_value Disconnect s1 of
                  (s2, Inl e) \<Rightarrow> (s2, Some e)
                | (s2, Inr u) \<Rightarrow> (log_info ''Disconnected.'' s2, None))))"

subsection \<open>Subscriptions\<close>

definition subscribe_top_of_book :: "feed \<Rightarrow> adapter \<Rightarrow> string \<Rightarrow> adapter \<times> error option" where
  "subscribe_top_of_book fd s symbol =
     (case contracts s symbol of
        None \<Rightarrow>
          (s, Some (ValueError (''Symbol '' @ symbol @ '' not defined. Call define_contracts first.'')))
      | Some c \<Rightarrow>
          (case ib_request fd (feed_ticker fd) (ReqMktData c) s of
             (s1, Inl e) \<Rightarrow> (s1, Some e)
           | (s1, Inr ticker) \<Rightarrow>
               (log_info (''Subscribed to top-of-book for '' @ symbol)
                  (s1\<lparr> tasks := tasks s1 @ [MonitorTask symbol ticker],
                       ticker_subs := dict_set symbol ticker (ticker_subs s1) \<rparr>),
                None)))"

definition subscribe_tick_by_tick ::
  "feed \<Rightarrow> adapter \<Rightarrow> string \<Rightarrow> string \<Rightarrow> adapter \<times> error option" where
  "subscribe_tick_by_tick fd s symbol tickType =
     (case contracts s symbol of
        None \<Rightarrow> (s, Some (ValueError (''Symbol '' @ symbol @ '' not defined.'')))
      | Some c \<Rightarrow>
          (case ib_request fd (feed_ticker fd) (ReqTickByTickData c tickType) s of
             (s1, Inl e) \<Rightarrow> (s1, Some e)
           | (s1, Inr ticker) \<Rightarrow>
               (log_info (''Subscribed to tick-by-tick ['' @ tickType @ ''] for '' @ symbol)
                  (s1\<lparr> ticker_subs :=
                         dict_set (symbol @ ''_tick_'' @ tickType) ticker (ticker_subs s1),
                       tasks := tasks s1 @ [MonitorTicksTask symbol tickType ticker] \<rparr>),
                None)))"

definition subscribe_order_book ::
  "feed \<Rightarrow> adapter \<Rightarrow> string \<Rightarrow> int \<Rightarrow> adapter \<times> error option" where
  "subscribe_order_book fd s symbol numRows =
     (case contracts s symbol of
        None \<Rightarrow> (s, Some (ValueError (''Symbol '' @ symbol @ '' not defined.'')))
      | Some c \<Rightarrow>
          (case ib_request fd (feed_ticker fd) (ReqMktDepth c numRows False) s of
             (s1, Inl e) \<Rightarrow> (s1, Some e)
           | (s1, Inr ticker) \<Rightarrow>
               (log_info (''Subscribed to market depth for '' @ symbol @ '' (v2)'')
                  (s1\<lparr> l2_depth_subs := dict_set symbol ticker (l2_depth_subs s1),
                       update_handlers := update_handlers s1 @ [(ticker, OnDepthUpdate symbol)] \<rparr>),
                None)))"

text \<open>The \<^verbatim>\<open>try\<close> block covers the request and what follows it; its
  \<^verbatim>\<open>except Exception\<close> logs a warning and awaits \<^verbatim>\<open>subscribe_order_book\<close>, outside any
  \<^verbatim>\<open>try\<close>.\<close>

definition subscribe_smart_depth ::
  "feed \<Rightarrow> adapter \<Rightarrow> string \<Rightarrow> int \<Rightarrow> adapter \<times> error option" where
  "subscribe_smart_depth fd s symbol numRows =
     (case contracts s symbol of
        None \<Rightarrow> (s, Some (ValueError (''Symbol '' @ symbol @ '' not defined.'')))
      | Some c \<Rightarrow>
          (case ib_request fd (feed_ticker fd) (ReqMktDepth c numRows True) s of
             (s1, Inr ticker) \<Rightarrow>
               (log_info (''Subscribed to smart (L3) market depth for '' @ symbol)
                  (s1\<lparr> l2_depth_subs := dict_set (symbol @ ''_smart'') ticker (l2_depth_subs s1),
                       update_handlers :=
                         update_handlers s1 @ [(ticker, OnSmartDepthUpdate symbol)] \<rparr>),
                None)
           | (s1, Inl e) \<Rightarrow>
               subscribe_order_book fd
                 (log_warning (''Smart depth not available for '' @ symbol @ '': '' @ error_text e) s1)
                 symbol numRows))"

subsection \<open>Requests\<close>

definition new_HistoricalBar :: "BarData \<Rightarrow> HistoricalBar" where
  "new_HistoricalBar bar =
     \<lparr> hb_date = bd_date bar, hb_open = bd_open bar, hb_high = bd_high bar,
       hb_low = bd_low bar, hb_close = bd_close bar, hb_volume = bd_volume bar,
       hb_barCount = bd_barCount bar, hb_average = bd_average bar \<rparr>"

definition request_historical_data ::
  "feed \<Rightarrow> adapter \<Rightarrow> string \<Rightarrow> string \<Rightarrow> string \<Rightarrow> string \<Rightarrow> bool \<Rightarrow> adapter \<times> error option" where
  "request_historical_data fd s symbol durationStr barSizeSetting whatToShow useRTH =
     (case contracts s symbol of
        None \<Rightarrow> (s, Some (ValueError (''Symbol '' @ symbol @ '' not defined.'')))
      | Some c \<Rightarrow>
          (case ib_request fd (feed_bars fd)
                  (ReqHistoricalDataAsync c durationStr barSizeSetting whatToShow useRTH) s of
             (s1, Inl e) \<Rightarrow> (s1, Some e)
           | (s1, Inr bars) \<Rightarrow>
               (queue_put
                  (HistoricalData
                     \<lparr> hd_event_type = ''historical_data'', hd_symbol = symbol,
                       hd_bars = map new_HistoricalBar bars \<rparr>) s1,
                None)))"

definition request_fundamental_data ::
  "feed \<Rightarrow> adapter \<Rightarrow> string \<Rightarrow> string \<Rightarrow> adapter \<times> error option" where
  "request_fundamental_data fd s symbol reportType =
     (case contracts s symbol of
        None \<Rightarrow> (s, Some (ValueError (''Symbol '' @ symbol @ '' not defined.'')))
      | Some c \<Rightarrow>
          (case ib_request fd (feed_data fd) (ReqFundamentalDataAsync c reportType) s of
             (s1, Inl e) \<Rightarrow> (s1, Some e)
           | (s1, Inr d) \<Rightarrow>
               (queue_put
                  (FundamentalData
                     \<lparr> fd_event_type = ''fundamental_data'', fd_symbol = symbol,
                       fd_report_type = reportType, fd_data = d \<rparr>) s1,
                None)))"

definition request_fundamental_ratios ::
  "feed \<Rightarrow> adapter \<Rightarrow> string \<Rightarrow> adapter \<times> error option" where
  "request_fundamental_ratios fd s symbol =
     (case contracts s symbol of
        None \<Rightarrow> (s, Some (ValueError (''Symbol '' @ symbol @ '' not defined.'')))
      | Some c \<Rightarrow>
          (case ib_request fd (feed_data fd) (ReqFundamentalDataAsync c ''FinRatios'') s of
             (s1, Inl e) \<Rightarrow> (s1, Some e)
           | (s1, Inr d) \<Rightarrow>
               (queue_put
                  (FundamentalRatios
                     \<lparr> fr_event_type = ''fundamental_ratios'', fr_symbol = symbol, fr_data = d \<rparr>) s1,
                None)))"

definition current_queue_size :: "adapter \<Rightarrow> nat" where
  "current_queue_size s = length (queue s)"

section \<open>Concrete inputs\<close>

text \<open>A trade tick with price \<open>p\<close> and the float size 100, and the message it gives.\<close>

definition example_tick :: "real \<Rightarrow> Tick" where
  "example_tick p =
     \<lparr> tick_time = Some ''2024-01-02T10:00:00'', tick_price = Some (PyFloat p),
       tick_size = Some (PyFloat 100),
       tickAttribLast = Some [(''pastLimit'', False), (''unreported'', False)],
       tickAttrib = None \<rparr>"

definition example_message :: "real \<Rightarrow> TickByTickMessage" where
  "example_message p =
     \<lparr> tbt_event_type = ''tick_by_tick_last'', tbt_symbol = ''PLTR'',
       tbt_time = Some ''2024-01-02T10:00:00'', tbt_price = Some (Finite p),
       tbt_size = Some 100,
       tbt_tickAttrib = Some [(''pastLimit'', False), (''unreported'', False)] \<rparr>"

text \<open>A trade tick for half a share.\<close>

definition fractional_tick :: Tick where
  "fractional_tick = (example_tick 1)\<lparr> tick_size := Some (PyFloat 0.5) \<rparr>"

definition pltr :: Contract where
  "pltr = Stock ''PLTR'' ''SMART'' ''USD''"

text \<open>A ticker as the feed makes it for a contract, before any data has arrived.\<close>

definition new_ticker :: "Contract option \<Rightarrow> Ticker" where
  "new_ticker c =
     \<lparr> contract = c, bid = PyNaN, ask = PyNaN, last_val = PyNaN, volume = PyNaN,
       time = None, tickByTicks = [], domBids = [], domAsks = [] \<rparr>"

definition quote :: "pyval \<Rightarrow> pyval \<Rightarrow> Ticker" where
  "quote b a = (new_ticker (Some pltr))\<lparr> bid := b, ask := a \<rparr>"

text \<open>The conversions on the values of the examples. An integer of magnitude up to
  \<open>2 ^ 53\<close> converts to the float of the same value; no example holds a larger one, and
  this library gives it no float. A float is accepted for an integer field when it has no
  fractional part.\<close>

definition exact_lib :: pylib where
  "exact_lib =
     \<lparr> lib_float_of_int = (\<lambda>i. if \<bar>i\<bar> \<le> 2 ^ 53 then Some (of_int i) else None),
       lib_int_of_float = (\<lambda>r. if r = of_int (floor r) then Some (floor r) else None) \<rparr>"

fun call_contract :: "feed_call \<Rightarrow> Contract option" where
  "call_contract (ReqMktData c) = Some c"
| "call_contract (ReqTickByTickData c tickType) = Some c"
| "call_contract (ReqMktDepth c numRows smart) = Some c"
| "call_contract (CancelMktData c) = Some c"
| "call_contract (CancelMktDepth c smart) = Some c"
| "call_contract (ReqHistoricalDataAsync c d b w u) = Some c"
| "call_contract (ReqFundamentalDataAsync c r) = Some c"
| "call_contract (ConnectAsync h p cid) = None"
| "call_contract Disconnect = None"

text \<open>A feed that accepts every call.\<close>

definition accepting_feed :: feed where
  "accepting_feed =
     \<lparr> feed_raises = (\<lambda>cs c. None),
       feed_ticker = (\<lambda>cs c. new_ticker (call_contract c)),
       feed_bars = (\<lambda>cs c. []),
       feed_data = (\<lambda>cs c. []) \<rparr>"

fun is_depth_request :: "bool \<Rightarrow> feed_call \<Rightarrow> bool" where
  "is_depth_request smart_only (ReqMktDepth c numRows smart) = (smart_only \<longrightarrow> smart)"
| "is_depth_request smart_only c = False"

text \<open>A feed that rejects the smart depth requests only, and one that rejects every
  depth request.\<close>

definition smart_rejecting_feed :: feed where
  "smart_rejecting_feed =
     accepting_feed\<lparr> feed_raises :=
       (\<lambda>cs c. if is_depth_request True c
                then Some (FeedError ''smart depth not supported'') else None) \<rparr>"

definition depth_rejecting_feed :: feed where
  "depth_rejecting_feed =
     accepting_feed\<lparr> feed_raises :=
       (\<lambda>cs c. if is_depth_request False c
                then Some (FeedError ''no market depth'') else None) \<rparr>"

text \<open>An adapter that is connected and knows the contract of PLTR.\<close>

definition connected_adapter :: adapter where
  "connected_adapter =
     define_contracts (fst (connect accepting_feed (adapter_init ''127.0.0.1'' 7497 1 10000)))
       [''PLTR''] ''SMART'' ''USD''"

text \<open>A feed that rejects the cancellation of market data and accepts the rest.\<close>

fun is_mkt_data_cancel :: "feed_call \<Rightarrow> bool" where
  "is_mkt_data_cancel (CancelMktData c) = True"
| "is_mkt_data_cancel c = False"

definition cancel_rejecting_feed :: feed where
  "cancel_rejecting_feed =
     accepting_feed\<lparr> feed_raises :=
       (\<lambda>cs c. if is_mkt_data_cancel c then Some (FeedError ''not connected'') else None) \<rparr>"

text \<open>The connected adapter after a quote, a tick-by-tick and a depth subscription.\<close>

definition subscribed_adapter :: adapter where
  "subscribed_adapter =
     fst (subscribe_order_book accepting_feed
       (fst (subscribe_tick_by_tick accepting_feed
          (fst (subscribe_top_of_book accepting_feed connected_adapter ''PLTR''))
          ''PLTR'' ''Last''))
       ''PLTR'' 5)"

text \<open>A ticker with two bid levels and one ask level, and the same with half a share
  at the second bid level.\<close>

definition example_book :: Ticker where
  "example_book =
     (new_ticker (Some pltr))
       \<lparr> domBids := [\<lparr> dom_price = PyFloat 10, dom_size = PyFloat 300 \<rparr>,
                     \<lparr> dom_price = PyFloat 9, dom_size = PyFloat 500 \<rparr>],
         domAsks := [\<lparr> dom_price = PyFloat 11, dom_size = PyFloat 200 \<rparr>] \<rparr>"

definition fractional_book :: Ticker where
  "fractional_book =
     (new_ticker (Some pltr))
       \<lparr> domBids := [\<lparr> dom_price = PyFloat 10, dom_size = PyFloat 300 \<rparr>,
                     \<lparr> dom_price = PyFloat 9, dom_size = PyFloat 0.5 \<rparr>],
         domAsks := [\<lparr> dom_price = PyFloat 11, dom_size = PyFloat 200 \<rparr>] \<rparr>"

definition depth_message :: "nat \<Rightarrow> int \<Rightarrow> real \<Rightarrow> int \<Rightarrow> MarketDepthMessage" where
  "depth_message i side p n =
     \<lparr> md_event_type = ''market_depth'', md_symbol = ''PLTR'', md_position = i,
       md_operation = 1, md_side = side, md_price = Finite p, md_size = n \<rparr>"

text \<open>Tick lists of length three and seven, the second extending the first.\<close>

definition three_ticks :: "Tick list" where
  "three_ticks = [example_tick 1, example_tick 2, example_tick 3]"

definition seven_ticks :: "Tick list" where
  "seven_ticks = three_ticks @ [example_tick 4, example_tick 5, example_tick 6, example_tick 7]"

text \<open>The snapshot of a PLTR ticker that carries a bid and an ask only.\<close>

definition quote_snapshot :: "real \<Rightarrow> real \<Rightarrow> TopOfBookMessage" where
  "quote_snapshot b a =
     \<lparr> tob_event_type = ''top_of_book'', tob_symbol = ''PLTR'',
       tob_bid = Some b, tob_ask = Some a, tob_last = None,
       tob_volume = None, tob_timestamp = None \<rparr>"

text \<open>The snapshot of a PLTR ticker on which no data has arrived: every value unknown.\<close>

definition empty_snapshot :: TopOfBookMessage where
  "empty_snapshot =
     \<lparr> tob_event_type = ''top_of_book'', tob_symbol = ''PLTR'',
       tob_bid = None, tob_ask = None, tob_last = None,
       tob_volume = None, tob_timestamp = None \<rparr>"

section \<open>Derived notions used in the statements\<close>

text \<open>The last snapshot a quote monitor has emitted, if any.\<close>

definition last_emitted :: "monitor_state \<Rightarrow> TopOfBookMessage option" where
  "last_emitted st = (if emitted st = [] then None else Some (last (emitted st)))"

text \<open>The contracts of the registry entries that carry one, in iteration order.\<close>

definition entry_contracts :: "(string \<times> Ticker) list \<Rightarrow> Contract list" where
  "entry_contracts subs = List.map_filter (\<lambda>entry. contract (snd entry)) subs"

text \<open>The cancel calls of a sweep over the two registries.\<close>

definition sweep_calls :: "adapter \<Rightarrow> feed_call list" where
  "sweep_calls s =
     map CancelMktData (entry_contracts (ticker_subs s))
       @ map (\<lambda>c. CancelMktDepth c False) (entry_contracts (l2_depth_subs s))"

text \<open>The quote monitor tasks of a symbol.\<close>

fun is_monitor_of :: "string \<Rightarrow> task \<Rightarrow> bool" where
  "is_monitor_of symbol (MonitorTask sy ticker) = (sy = symbol)"
| "is_monitor_of symbol (MonitorTicksTask sy tickType ticker) = False"

section \<open>Properties\<close>

subsection \<open>The incremental-list monitor\<close>

lemma extends_take: "extends xs ys \<Longrightarrow> take (length xs) ys = xs"
  by (induction xs ys rule: extends.induct) auto

lemma extends_length: "extends xs ys \<Longrightarrow> length xs \<le> length ys"
  by (induction xs ys rule: extends.induct) auto

lemma new_TickByTickMessage_fields:
  assumes "new_TickByTickMessage L symbol tickType tick = Inr m"
  shows "tbt_event_type m = ''tick_by_tick_'' @ map lower_char tickType
       \<and> tbt_symbol m = symbol
       \<and> tbt_time m = tick_time tick
       \<and> (\<exists>price. tick_price tick = Some price
             \<and> validate_optional_float L price = Inr (tbt_price m))
       \<and> (\<exists>sz. tick_size tick = Some sz \<and> validate_optional_int L sz = Inr (tbt_size m))
       \<and> tbt_tickAttrib m
            = (case tickAttribLast tick of Some d \<Rightarrow> Some d | None \<Rightarrow> tickAttrib tick)"
  using assms by (auto simp: new_TickByTickMessage_def split: option.splits sum.splits)

lemma put_ticks_ok:
  "\<forall>tick \<in> set new_ticks. \<exists>m. new_TickByTickMessage L symbol tickType tick = Inr m \<Longrightarrow>
   \<exists>ms. put_ticks L symbol tickType new_ticks out = (out @ ms, None)
        \<and> map Inr ms = map (new_TickByTickMessage L symbol tickType) new_ticks"
proof (induction new_ticks arbitrary: out)
  case Nil
  then show ?case by simp
next
  case (Cons tick new_ticks)
  from Cons.prems obtain m where m: "new_TickByTickMessage L symbol tickType tick = Inr m"
    by auto
  from Cons.prems
  have "\<forall>tick \<in> set new_ticks. \<exists>m. new_TickByTickMessage L symbol tickType tick = Inr m"
    by simp
  from Cons.IH [OF this, of "out @ [m]"] obtain ms
    where ms: "put_ticks L symbol tickType new_ticks (out @ [m]) = ((out @ [m]) @ ms, None)"
      and eq: "map Inr ms = map (new_TickByTickMessage L symbol tickType) new_ticks"
    by blast
  have "put_ticks L symbol tickType (tick # new_ticks) out = (out @ (m # ms), None)"
    using m ms by simp
  moreover have "map Inr (m # ms) = map (new_TickByTickMessage L symbol tickType) (tick # new_ticks)"
    using m eq by simp
  ultimately show ?case by blast
qed

lemma monitor_ticks_cycle_steady:
  assumes "extends cur nxt"
      and "\<forall>tick \<in> set nxt. \<exists>m. new_TickByTickMessage L symbol tickType tick = Inr m"
      and "ticks_failed st = None"
      and "last_processed_count st = length cur"
      and "map Inr (ticks_emitted st) = map (new_TickByTickMessage L symbol tickType) cur"
  shows "ticks_failed (monitor_ticks_cycle L symbol tickType st (steady nxt)) = None
       \<and> last_processed_count (monitor_ticks_cycle L symbol tickType st (steady nxt)) = length nxt
       \<and> map Inr (ticks_emitted (monitor_ticks_cycle L symbol tickType st (steady nxt)))
           = map (new_TickByTickMessage L symbol tickType) nxt"
proof (cases "length cur < length nxt")
  case True
  have "\<forall>tick \<in> set (drop (length cur) nxt).
          \<exists>m. new_TickByTickMessage L symbol tickType tick = Inr m"
    using assms(2) by (meson in_set_dropD)
  from put_ticks_ok [OF this, of "ticks_emitted st"] obtain ms
    where ms: "put_ticks L symbol tickType (drop (length cur) nxt) (ticks_emitted st)
                 = (ticks_emitted st @ ms, None)"
      and eq: "map Inr ms = map (new_TickByTickMessage L symbol tickType) (drop (length cur) nxt)"
    by blast
  have "map Inr (ticks_emitted st @ ms)
          = map (new_TickByTickMessage L symbol tickType) (take (length cur) nxt @ drop (length cur) nxt)"
    using assms(5) eq extends_take [OF assms(1)] by simp
  then have "map Inr (ticks_emitted st @ ms) = map (new_TickByTickMessage L symbol tickType) nxt"
    by simp
  moreover have "nxt \<noteq> []" using True by auto
  ultimately show ?thesis
    using True assms(3) assms(4) ms by (simp add: monitor_ticks_cycle_def steady_def)
next
  case False
  with extends_length [OF assms(1)] have len: "length nxt = length cur" by simp
  with extends_take [OF assms(1)] have "nxt = cur" by simp
  with assms show ?thesis
    by (simp add: monitor_ticks_cycle_def steady_def)
qed

lemma monitor_ticks_grows:
  "grows_from cur polls \<Longrightarrow>
   \<forall>ticks \<in> set polls. \<forall>tick \<in> set ticks.
      \<exists>m. new_TickByTickMessage L symbol tickType tick = Inr m \<Longrightarrow>
   ticks_failed st = None \<Longrightarrow>
   last_processed_count st = length cur \<Longrightarrow>
   map Inr (ticks_emitted st) = map (new_TickByTickMessage L symbol tickType) cur \<Longrightarrow>
   ticks_failed (monitor_ticks L symbol tickType st (map steady polls)) = None
   \<and> last_processed_count (monitor_ticks L symbol tickType st (map steady polls))
       = length (last (cur # polls))
   \<and> map Inr (ticks_emitted (monitor_ticks L symbol tickType st (map steady polls)))
       = map (new_TickByTickMessage L symbol tickType) (last (cur # polls))"
proof (induction polls arbitrary: cur st)
  case Nil
  then show ?case by (simp add: monitor_ticks_def)
next
  case (Cons nxt rest)
  from Cons.prems(1) have e: "extends cur nxt" and g: "grows_from nxt rest" by simp_all
  from Cons.prems(2)
  have v: "\<forall>tick \<in> set nxt. \<exists>m. new_TickByTickMessage L symbol tickType tick = Inr m"
    and vs: "\<forall>ticks \<in> set rest. \<forall>tick \<in> set ticks.
               \<exists>m. new_TickByTickMessage L symbol tickType tick = Inr m"
    by simp_all
  note step = monitor_ticks_cycle_steady [OF e v Cons.prems(3) Cons.prems(4) Cons.prems(5)]
  from Cons.IH [OF g vs conjunct1 [OF step] conjunct1 [OF conjunct2 [OF step]]
      conjunct2 [OF conjunct2 [OF step]]]
  show ?case by (simp add: monitor_ticks_def)
qed

lemma grows_from_take: "grows_from cur polls \<Longrightarrow> grows_from cur (take n polls)"
proof (induction polls arbitrary: cur n)
  case Nil
  then show ?case by simp
next
  case (Cons a polls)
  then show ?case by (cases n) auto
qed

lemma lower_Last: "map lower_char ''Last'' = ''last''"
  by code_simp

lemma example_tick_message:
  "new_TickByTickMessage exact_lib ''PLTR'' ''Last'' (example_tick p) = Inr (example_message p)"
  unfolding new_TickByTickMessage_def lower_Last
  by (simp add: example_tick_def example_message_def exact_lib_def)

lemma fractional_tick_message:
  "new_TickByTickMessage exact_lib ''PLTR'' ''Last'' fractional_tick = Inl ValidationError"
  by (simp add: new_TickByTickMessage_def fractional_tick_def example_tick_def exact_lib_def)

text \<open>
  Claim C3, as amended. Let the monitor start with cursor 0 and poll a tick list that only
  grows (the list seen at each poll extends the one seen before), let the list not change
  during a poll cycle, and let every tick seen construct a message. Then after any number
  \<open>n\<close> of poll cycles the task is alive, the cursor is the length of the list last seen,
  and the messages emitted so far are one per index of that list, in list order: the
  \<open>i\<close>-th is the message constructed from the \<open>i\<close>-th tick, with the monitor's symbol and
  event type and the tick's time, validated price, validated size and attributes.
\<close>

theorem monitor_ticks_no_gap_no_dup:
  assumes "grows_from [] polls"
      and "\<forall>ticks \<in> set polls. \<forall>tick \<in> set ticks.
             \<exists>m. new_TickByTickMessage L symbol tickType tick = Inr m"
      and "final = last ([] # take n polls)"
      and "st = monitor_ticks L symbol tickType monitor_ticks_init (map steady (take n polls))"
  shows "ticks_failed st = None
       \<and> last_processed_count st = length final
       \<and> length (ticks_emitted st) = length final
       \<and> (\<forall>i < length final.
            new_TickByTickMessage L symbol tickType (final ! i) = Inr (ticks_emitted st ! i)
            \<and> tbt_event_type (ticks_emitted st ! i) = ''tick_by_tick_'' @ map lower_char tickType
            \<and> tbt_symbol (ticks_emitted st ! i) = symbol
            \<and> tbt_time (ticks_emitted st ! i) = tick_time (final ! i)
            \<and> (\<exists>price. tick_price (final ! i) = Some price
                  \<and> validate_optional_float L price = Inr (tbt_price (ticks_emitted st ! i)))
            \<and> (\<exists>sz. tick_size (final ! i) = Some sz
                  \<and> validate_optional_int L sz = Inr (tbt_size (ticks_emitted st ! i)))
            \<and> tbt_tickAttrib (ticks_emitted st ! i)
                 = (case tickAttribLast (final ! i) of
                      Some d \<Rightarrow> Some d
                    | None \<Rightarrow> tickAttrib (final ! i)))"
proof -
  have v: "\<forall>ticks \<in> set (take n polls). \<forall>tick \<in> set ticks.
             \<exists>m. new_TickByTickMessage L symbol tickType tick = Inr m"
    using assms(2) by (meson in_set_takeD)
  have init: "ticks_failed monitor_ticks_init = None"
    "last_processed_count monitor_ticks_init = length ([] :: Tick list)"
    "map Inr (ticks_emitted monitor_ticks_init)
       = map (new_TickByTickMessage L symbol tickType) []"
    by (simp_all add: monitor_ticks_init_def)
  from monitor_ticks_grows [OF grows_from_take [OF assms(1)] v init]
  have alive: "ticks_failed st = None"
    and cursor: "last_processed_count st = length final"
    and msgs: "map Inr (ticks_emitted st) = map (new_TickByTickMessage L symbol tickType) final"
    unfolding assms(3) assms(4) by blast+
  from msgs have len: "length (ticks_emitted st) = length final"
    by (metis length_map)
  have each: "new_TickByTickMessage L symbol tickType (final ! i) = Inr (ticks_emitted st ! i)"
    if "i < length final" for i
  proof -
    have "map Inr (ticks_emitted st) ! i = map (new_TickByTickMessage L symbol tickType) final ! i"
      using msgs by simp
    with that len show ?thesis by simp
  qed
  show ?thesis
    using alive cursor len each new_TickByTickMessage_fields [OF each] by simp
qed

text \<open>The list grows from length 0 to 3, stays at 3 and grows to 7: seven messages are
  emitted in all, those of the seven ticks in order, and the cursor ends at 7.\<close>

theorem monitor_ticks_no_gap_no_dup_witness:
  "grows_from [] [[], three_ticks, three_ticks, seven_ticks]
   \<and> new_TickByTickMessage exact_lib ''PLTR'' ''Last'' (example_tick 7) = Inr (example_message 7)
   \<and> ticks_failed (monitor_ticks exact_lib ''PLTR'' ''Last'' monitor_ticks_init
        (map steady [[], three_ticks, three_ticks, seven_ticks])) = None
   \<and> last_processed_count (monitor_ticks exact_lib ''PLTR'' ''Last'' monitor_ticks_init
        (map steady [[], three_ticks, three_ticks, seven_ticks])) = 7
   \<and> ticks_emitted (monitor_ticks exact_lib ''PLTR'' ''Last'' monitor_ticks_init
        (map steady [[], three_ticks, three_ticks, seven_ticks]))
       = [example_message 1, example_message 2, example_message 3, example_message 4,
          example_message 5, example_message 6, example_message 7]"
proof -
  have g: "grows_from [] [[], three_ticks, three_ticks, seven_ticks]"
    by (simp add: three_ticks_def seven_ticks_def)
  have v: "\<forall>ticks \<in> set [[], three_ticks, three_ticks, seven_ticks]. \<forall>tick \<in> set ticks.
             \<exists>m. new_TickByTickMessage exact_lib ''PLTR'' ''Last'' tick = Inr m"
    by (simp add: three_ticks_def seven_ticks_def example_tick_message)
  have run: "monitor_ticks exact_lib ''PLTR'' ''Last'' monitor_ticks_init
        (map steady [[], three_ticks, three_ticks, seven_ticks])
      = \<lparr> last_processed_count = 7,
          ticks_emitted = [example_message 1, example_message 2, example_message 3,
            example_message 4, example_message 5, example_message 6, example_message 7],
          ticks_failed = None \<rparr>"
    by (simp add: monitor_ticks_def monitor_ticks_cycle_def monitor_ticks_init_def steady_def
        three_ticks_def seven_ticks_def example_tick_message)
  from monitor_ticks_no_gap_no_dup [OF g v refl refl, of 4]
  have "ticks_failed (monitor_ticks exact_lib ''PLTR'' ''Last'' monitor_ticks_init
        (map steady [[], three_ticks, three_ticks, seven_ticks])) = None"
    by simp
  with g run show ?thesis by (simp add: example_tick_message)
qed

text \<open>
  Claim C3 as it is stated fails, in two ways, on lists that only grow. A tick for half a
  share does not pass the validation of \<^verbatim>\<open>size: Optional[int]\<close>: the exception ends the
  task, nothing is emitted and the cursor stays at 0 while the list grows on. And when the
  list grows from three to seven ticks while a put of the first cycle is suspended, the
  cursor is set to 7 after three messages: the four new ticks are never emitted.
\<close>

theorem monitor_ticks_gap_counterexample:
  "grows_from [] [[fractional_tick], [fractional_tick, example_tick 2]]
   \<and> ticks_failed (monitor_ticks exact_lib ''PLTR'' ''Last'' monitor_ticks_init
        (map steady [[fractional_tick], [fractional_tick, example_tick 2]])) = Some ValidationError
   \<and> ticks_emitted (monitor_ticks exact_lib ''PLTR'' ''Last'' monitor_ticks_init
        (map steady [[fractional_tick], [fractional_tick, example_tick 2]])) = []
   \<and> last_processed_count (monitor_ticks exact_lib ''PLTR'' ''Last'' monitor_ticks_init
        (map steady [[fractional_tick], [fractional_tick, example_tick 2]])) = 0
   \<and> grows_from [] [three_ticks, seven_ticks, seven_ticks]
   \<and> ticks_failed (monitor_ticks exact_lib ''PLTR'' ''Last'' monitor_ticks_init
        [(three_ticks, seven_ticks), steady seven_ticks]) = None
   \<and> last_processed_count (monitor_ticks exact_lib ''PLTR'' ''Last'' monitor_ticks_init
        [(three_ticks, seven_ticks), steady seven_ticks]) = 7
   \<and> ticks_emitted (monitor_ticks exact_lib ''PLTR'' ''Last'' monitor_ticks_init
        [(three_ticks, seven_ticks), steady seven_ticks])
       = [example_message 1, example_message 2, example_message 3]"
  by (simp add: monitor_ticks_def monitor_ticks_cycle_def monitor_ticks_init_def steady_def
      three_ticks_def seven_ticks_def example_tick_message fractional_tick_message)

text \<open>
  Claim C2, as amended. If at a poll the tick list is strictly shorter than the cursor, the
  cycle emits nothing and leaves the cursor where it is: the monitor state is unchanged.
\<close>

theorem monitor_ticks_shrunk_list_ignored:
  "length (fst poll) < last_processed_count st \<Longrightarrow>
   monitor_ticks_cycle L symbol tickType st poll = st"
  by (simp add: monitor_ticks_cycle_def split: option.splits)

theorem monitor_ticks_shrunk_list_ignored_witness:
  "length (fst (steady [example_tick 4]))
     < last_processed_count \<lparr> last_processed_count = 3, ticks_emitted = [], ticks_failed = None \<rparr>
   \<and> monitor_ticks_cycle exact_lib ''PLTR'' ''Last''
         \<lparr> last_processed_count = 3, ticks_emitted = [], ticks_failed = None \<rparr>
         (steady [example_tick 4])
       = \<lparr> last_processed_count = 3, ticks_emitted = [], ticks_failed = None \<rparr>"
proof -
  have h: "length (fst (steady [example_tick 4]))
     < last_processed_count \<lparr> last_processed_count = 3, ticks_emitted = [], ticks_failed = None \<rparr>"
    by (simp add: steady_def)
  from monitor_ticks_shrunk_list_ignored [OF h, of exact_lib "''PLTR''" "''Last''"] h
  show ?thesis by blast
qed

text \<open>
  Claim C2 as it is stated fails. After three ticks have been processed the feed replaces
  the list by one new tick; the list is shorter than the cursor, the cursor stays at 3 (it
  is neither reset to 0 nor set to the new length 1) and the new tick, whose message would
  be constructed without error, is never emitted.
\<close>

theorem monitor_ticks_reset_counterexample:
  "length [example_tick 4]
     < last_processed_count
         (monitor_ticks exact_lib ''PLTR'' ''Last'' monitor_ticks_init [steady three_ticks])
   \<and> new_TickByTickMessage exact_lib ''PLTR'' ''Last'' (example_tick 4) = Inr (example_message 4)
   \<and> last_processed_count
        (monitor_ticks exact_lib ''PLTR'' ''Last'' monitor_ticks_init
           [steady three_ticks, steady [example_tick 4]]) = 3
   \<and> example_message 4
        \<notin> set (ticks_emitted
             (monitor_ticks exact_lib ''PLTR'' ''Last'' monitor_ticks_init
                [steady three_ticks, steady [example_tick 4]]))"
  by (simp add: monitor_ticks_def monitor_ticks_cycle_def monitor_ticks_init_def steady_def
      three_ticks_def example_tick_message example_message_def)

subsection \<open>The quote monitor\<close>

lemma monitor_cycle_invariant:
  "prev_snapshot st = last_emitted st \<Longrightarrow>
   prev_snapshot (monitor_cycle L st ticker) = last_emitted (monitor_cycle L st ticker)"
  by (auto simp: monitor_cycle_def last_emitted_def split: sum.splits)

lemma monitor_invariant:
  "prev_snapshot st = last_emitted st \<Longrightarrow>
   prev_snapshot (monitor L st reads) = last_emitted (monitor L st reads)"
  unfolding monitor_def
  by (induction reads arbitrary: st) (simp_all add: monitor_cycle_invariant)

lemma monitor_run_equal:
  assumes "\<forall>t \<in> set run. read_snapshot L t = Inr snapshot"
      and "run \<noteq> []"
  shows "emitted (monitor L st run)
           = (if prev_snapshot st = Some snapshot then emitted st else emitted st @ [snapshot])
       \<and> prev_snapshot (monitor L st run) = Some snapshot"
  using assms
proof (induction run arbitrary: st)
  case Nil
  then show ?case by simp
next
  case (Cons t run)
  have t: "read_snapshot L t = Inr snapshot"
    using Cons.prems by simp
  have step: "emitted (monitor_cycle L st t)
           = (if prev_snapshot st = Some snapshot then emitted st else emitted st @ [snapshot])
       \<and> prev_snapshot (monitor_cycle L st t) = Some snapshot"
    using t by (auto simp: monitor_cycle_def)
  show ?case
  proof (cases "run = []")
    case True
    with step show ?thesis by (simp add: monitor_def)
  next
    case False
    with Cons.prems
    have "\<forall>t \<in> set run. read_snapshot L t = Inr snapshot"
      by simp
    from Cons.IH [OF this False, of "monitor_cycle L st t"] step
    show ?thesis by (simp add: monitor_def)
  qed
qed

lemma monitor_failed_reads:
  "\<forall>t \<in> set failed. \<exists>e. read_snapshot L t = Inl e \<Longrightarrow>
   prev_snapshot (monitor L st failed) = prev_snapshot st
   \<and> emitted (monitor L st failed) = emitted st"
  unfolding monitor_def
  by (induction failed arbitrary: st) (auto simp: monitor_cycle_def)

lemma quote_snapshot_read:
  "read_snapshot L (quote (PyFloat b) (PyFloat a)) = Inr (quote_snapshot b a)"
  by (simp add: read_snapshot_def new_TopOfBookMessage_def normalize_ticker_def quote_def
      new_ticker_def quote_snapshot_def pltr_def Stock_def)

text \<open>
  Claim C4. Take a quote monitor in any state it reaches from its start, and a non-empty
  run of reads that all construct the same snapshot (a single read is a run of length
  one). The run enqueues that snapshot exactly once if it differs from the last snapshot
  the monitor emitted (or nothing was emitted yet), and enqueues nothing if it equals it.
  Snapshots are compared field by field, an unknown value being \<open>None\<close>.
\<close>

theorem monitor_dedup:
  assumes "st = monitor L monitor_init reads"
      and "\<forall>t \<in> set run. read_snapshot L t = Inr snapshot"
      and "run \<noteq> []"
  shows "emitted (monitor L st run)
           = (if last_emitted st = Some snapshot then emitted st else emitted st @ [snapshot])"
proof -
  have "prev_snapshot monitor_init = last_emitted monitor_init"
    by (simp add: monitor_init_def last_emitted_def)
  then have "prev_snapshot st = last_emitted st"
    unfolding assms(1) by (rule monitor_invariant)
  with monitor_run_equal [OF assms(2) assms(3), of st] show ?thesis by simp
qed

text \<open>The feed reports bid 150.25 and ask 150.26, then twice bid 150.30: two snapshots are
  emitted, the second with bid 150.30.\<close>

theorem monitor_dedup_witness:
  "read_snapshot exact_lib (quote (PyFloat 150.30) (PyFloat 150.26))
     = Inr (quote_snapshot 150.30 150.26)
   \<and> [quote (PyFloat 150.30) (PyFloat 150.26), quote (PyFloat 150.30) (PyFloat 150.26)] \<noteq> []
   \<and> emitted (monitor exact_lib
        (monitor exact_lib monitor_init [quote (PyFloat 150.25) (PyFloat 150.26)])
        [quote (PyFloat 150.30) (PyFloat 150.26), quote (PyFloat 150.30) (PyFloat 150.26)])
       = [quote_snapshot 150.25 150.26, quote_snapshot 150.30 150.26]"
proof -
  have h: "\<forall>t \<in> set [quote (PyFloat 150.30) (PyFloat 150.26), quote (PyFloat 150.30) (PyFloat 150.26)].
      read_snapshot exact_lib t = Inr (quote_snapshot 150.30 150.26)"
    by (simp add: quote_snapshot_read)
  have st: "monitor exact_lib monitor_init [quote (PyFloat 150.25) (PyFloat 150.26)]
      = \<lparr> prev_snapshot = Some (quote_snapshot 150.25 150.26),
          emitted = [quote_snapshot 150.25 150.26], warnings = 0 \<rparr>"
    by (simp add: monitor_def monitor_cycle_def monitor_init_def quote_snapshot_read)
  have d: "quote_snapshot 150.25 150.26 \<noteq> quote_snapshot 150.30 150.26"
    by (simp add: quote_snapshot_def)
  have le: "last_emitted (monitor exact_lib monitor_init [quote (PyFloat 150.25) (PyFloat 150.26)])
      = Some (quote_snapshot 150.25 150.26)"
    unfolding st by (simp add: last_emitted_def)
  have em: "emitted (monitor exact_lib monitor_init [quote (PyFloat 150.25) (PyFloat 150.26)])
      = [quote_snapshot 150.25 150.26]"
    unfolding st by simp
  from monitor_dedup [OF refl h, of "[quote (PyFloat 150.25) (PyFloat 150.26)]"]
  have "emitted (monitor exact_lib
        (monitor exact_lib monitor_init [quote (PyFloat 150.25) (PyFloat 150.26)])
        [quote (PyFloat 150.30) (PyFloat 150.26), quote (PyFloat 150.30) (PyFloat 150.26)])
       = [quote_snapshot 150.25 150.26, quote_snapshot 150.30 150.26]"
    unfolding le em using d by simp
  then show ?thesis by (simp add: quote_snapshot_read)
qed

text \<open>
  Claim C10. A quote monitor starts with an empty previous-snapshot cache. Whatever reads
  fail to construct a snapshot first, the first read that constructs one has its snapshot
  emitted, whatever the values of its fields.
\<close>

theorem monitor_first_snapshot_emitted:
  assumes "\<forall>t \<in> set failed. \<exists>e. read_snapshot L t = Inl e"
      and "read_snapshot L ticker = Inr snapshot"
  shows "emitted (monitor L monitor_init (failed @ [ticker])) = [snapshot]"
proof -
  have "monitor L monitor_init (failed @ [ticker])
          = monitor_cycle L (monitor L monitor_init failed) ticker"
    by (simp add: monitor_def)
  moreover have "prev_snapshot (monitor L monitor_init failed) = None"
    and "emitted (monitor L monitor_init failed) = []"
    using monitor_failed_reads [OF assms(1), of monitor_init] by (simp_all add: monitor_init_def)
  ultimately show ?thesis using assms(2) by (simp add: monitor_cycle_def)
qed

text \<open>A read of a ticker without contract fails; the next read, of a ticker whose bid,
  ask, last and volume are all not-a-number, gives the snapshot with every value unknown,
  and it is emitted.\<close>

theorem monitor_first_snapshot_emitted_witness:
  "read_snapshot exact_lib (new_ticker None) = Inl ValidationError
   \<and> read_snapshot exact_lib (new_ticker (Some pltr)) = Inr empty_snapshot
   \<and> emitted (monitor exact_lib monitor_init ([new_ticker None] @ [new_ticker (Some pltr)]))
       = [empty_snapshot]"
proof -
  have n: "read_snapshot exact_lib (new_ticker None) = Inl ValidationError"
    by (simp add: read_snapshot_def new_TopOfBookMessage_def normalize_ticker_def new_ticker_def)
  then have f: "\<forall>t \<in> set [new_ticker None]. \<exists>e. read_snapshot exact_lib t = Inl e"
    by simp
  have r: "read_snapshot exact_lib (new_ticker (Some pltr)) = Inr empty_snapshot"
    by (simp add: read_snapshot_def new_TopOfBookMessage_def normalize_ticker_def new_ticker_def
        empty_snapshot_def pltr_def Stock_def)
  from monitor_first_snapshot_emitted [OF f r] r n show ?thesis by blast
qed

subsection \<open>The depth callback\<close>

lemma new_MarketDepthMessage_fields:
  assumes "new_MarketDepthMessage L symbol i side level = Inr m"
  shows "md_event_type m = ''market_depth'' \<and> md_symbol m = symbol \<and> md_position m = i
       \<and> md_operation m = 1 \<and> md_side m = side
       \<and> validate_float L (dom_price level) = Inr (md_price m)
       \<and> validate_int L (dom_size level) = Inr (md_size m)"
  using assms by (auto simp: new_MarketDepthMessage_def split: sum.splits)

lemma put_levels_ok:
  "\<forall>level \<in> set levels. \<exists>p n. validate_float L (dom_price level) = Inr p
      \<and> validate_int L (dom_size level) = Inr n \<Longrightarrow>
   \<exists>ms. put_levels L symbol side i levels out = (out @ ms, None)
      \<and> length ms = length levels
      \<and> (\<forall>k < length levels.
            new_MarketDepthMessage L symbol (i + k) side (levels ! k) = Inr (ms ! k))"
proof (induction levels arbitrary: i out)
  case Nil
  then show ?case by simp
next
  case (Cons level levels)
  from Cons.prems obtain p n
    where "validate_float L (dom_price level) = Inr p"
      and "validate_int L (dom_size level) = Inr n"
    by auto
  then obtain m where m: "new_MarketDepthMessage L symbol i side level = Inr m"
    by (simp add: new_MarketDepthMessage_def)
  from Cons.prems
  have "\<forall>level \<in> set levels. \<exists>p n. validate_float L (dom_price level) = Inr p
      \<and> validate_int L (dom_size level) = Inr n"
    by simp
  from Cons.IH [OF this, of "Suc i" "out @ [m]"] obtain ms
    where run: "put_levels L symbol side (Suc i) levels (out @ [m]) = ((out @ [m]) @ ms, None)"
      and len: "length ms = length levels"
      and each: "\<forall>k < length levels.
            new_MarketDepthMessage L symbol (Suc i + k) side (levels ! k) = Inr (ms ! k)"
    by blast
  have "put_levels L symbol side i (level # levels) out = (out @ (m # ms), None)"
    using m run by simp
  moreover have "length (m # ms) = length (level # levels)"
    using len by simp
  moreover have "new_MarketDepthMessage L symbol (i + k) side ((level # levels) ! k)
                   = Inr ((m # ms) ! k)"
    if "k < length (level # levels)" for k
  proof (cases k)
    case 0
    with m show ?thesis by simp
  next
    case (Suc j)
    with that each show ?thesis by simp
  qed
  ultimately show ?case by blast
qed

lemma example_book_update:
  "on_depth_update exact_lib ''PLTR'' example_book
     = ([depth_message 0 0 10 300, depth_message 1 0 9 500, depth_message 0 1 11 200], None)"
  by (simp add: on_depth_update_def new_MarketDepthMessage_def example_book_def new_ticker_def
      exact_lib_def depth_message_def)

text \<open>
  Claim C5, as amended. Take an invocation of the depth callback on a ticker with \<open>m\<close> bid
  levels and \<open>n\<close> ask levels in which every level's price and size pass the validation of
  the message fields \<^verbatim>\<open>price: float\<close> and \<^verbatim>\<open>size: int\<close>. Then the callback raises nothing
  and creates exactly \<open>m + n\<close> messages, every one with operation 1 (update). The first
  \<open>m\<close> are the bid side (side 0): the \<open>i\<close>-th has position \<open>i\<close> and the validated price and
  size of the bid level of rank \<open>i\<close>. The next \<open>n\<close> are the ask side (side 1): the \<open>j\<close>-th
  of them has position \<open>j\<close> and the validated price and size of the ask level of rank \<open>j\<close>.
\<close>

theorem on_depth_update_full_ladder:
  assumes "\<forall>level \<in> set (domBids ticker @ domAsks ticker).
             \<exists>p n. validate_float L (dom_price level) = Inr p
               \<and> validate_int L (dom_size level) = Inr n"
      and "out = fst (on_depth_update L symbol ticker)"
  shows "snd (on_depth_update L symbol ticker) = None
       \<and> length out = length (domBids ticker) + length (domAsks ticker)
       \<and> (\<forall>m \<in> set out. md_operation m = 1)
       \<and> (\<forall>i < length (domBids ticker).
            md_event_type (out ! i) = ''market_depth'' \<and> md_symbol (out ! i) = symbol
            \<and> md_position (out ! i) = i \<and> md_operation (out ! i) = 1 \<and> md_side (out ! i) = 0
            \<and> validate_float L (dom_price (domBids ticker ! i)) = Inr (md_price (out ! i))
            \<and> validate_int L (dom_size (domBids ticker ! i)) = Inr (md_size (out ! i)))
       \<and> (\<forall>j < length (domAsks ticker).
            md_event_type (out ! (length (domBids ticker) + j)) = ''market_depth''
            \<and> md_symbol (out ! (length (domBids ticker) + j)) = symbol
            \<and> md_position (out ! (length (domBids ticker) + j)) = j
            \<and> md_operation (out ! (length (domBids ticker) + j)) = 1
            \<and> md_side (out ! (length (domBids ticker) + j)) = 1
            \<and> validate_float L (dom_price (domAsks ticker ! j))
                 = Inr (md_price (out ! (length (domBids ticker) + j)))
            \<and> validate_int L (dom_size (domAsks ticker ! j))
                 = Inr (md_size (out ! (length (domBids ticker) + j))))"
proof -
  from assms(1)
  have vb: "\<forall>level \<in> set (domBids ticker). \<exists>p n. validate_float L (dom_price level) = Inr p
               \<and> validate_int L (dom_size level) = Inr n"
    and va: "\<forall>level \<in> set (domAsks ticker). \<exists>p n. validate_float L (dom_price level) = Inr p
               \<and> validate_int L (dom_size level) = Inr n"
    by auto
  from put_levels_ok [OF vb, of symbol 0 0 "[]"] obtain bs
    where bs: "put_levels L symbol 0 0 (domBids ticker) [] = (bs, None)"
      and lb: "length bs = length (domBids ticker)"
      and eb: "\<forall>k < length (domBids ticker).
                 new_MarketDepthMessage L symbol k 0 (domBids ticker ! k) = Inr (bs ! k)"
    by auto
  from put_levels_ok [OF va, of symbol 1 0 bs] obtain aks
    where aks: "put_levels L symbol 1 0 (domAsks ticker) bs = (bs @ aks, None)"
      and la: "length aks = length (domAsks ticker)"
      and ea: "\<forall>k < length (domAsks ticker).
                 new_MarketDepthMessage L symbol k 1 (domAsks ticker ! k) = Inr (aks ! k)"
    by auto
  have run: "on_depth_update L symbol ticker = (bs @ aks, None)"
    using bs aks by (simp add: on_depth_update_def)
  then have out: "out = bs @ aks"
    using assms(2) by simp
  have bid: "new_MarketDepthMessage L symbol i 0 (domBids ticker ! i) = Inr (out ! i)"
    if "i < length (domBids ticker)" for i
    using that eb lb out by (simp add: nth_append)
  have ask: "new_MarketDepthMessage L symbol j 1 (domAsks ticker ! j)
               = Inr (out ! (length (domBids ticker) + j))"
    if "j < length (domAsks ticker)" for j
    using that ea lb out by (simp add: nth_append)
  have op: "md_operation m = 1" if "m \<in> set out" for m
  proof -
    from that out have "m \<in> set bs \<or> m \<in> set aks" by simp
    then show ?thesis
    proof
      assume "m \<in> set bs"
      then obtain k where "k < length bs" and "bs ! k = m"
        by (auto simp: in_set_conv_nth)
      with eb lb new_MarketDepthMessage_fields [of L symbol k 0 "domBids ticker ! k" m]
      show ?thesis by simp
    next
      assume "m \<in> set aks"
      then obtain k where "k < length aks" and "aks ! k = m"
        by (auto simp: in_set_conv_nth)
      with ea la new_MarketDepthMessage_fields [of L symbol k 1 "domAsks ticker ! k" m]
      show ?thesis by simp
    qed
  qed
  show ?thesis
    using run out lb la op new_MarketDepthMessage_fields [OF bid]
      new_MarketDepthMessage_fields [OF ask]
    by simp
qed

theorem on_depth_update_full_ladder_witness:
  "validate_int exact_lib (PyFloat 500) = Inr 500
   \<and> snd (on_depth_update exact_lib ''PLTR'' example_book) = None
   \<and> fst (on_depth_update exact_lib ''PLTR'' example_book)
       = [depth_message 0 0 10 300, depth_message 1 0 9 500, depth_message 0 1 11 200]"
proof -
  have v: "\<forall>level \<in> set (domBids example_book @ domAsks example_book).
             \<exists>p n. validate_float exact_lib (dom_price level) = Inr p
               \<and> validate_int exact_lib (dom_size level) = Inr n"
    by (simp add: example_book_def new_ticker_def exact_lib_def)
  have i: "validate_int exact_lib (PyFloat 500) = Inr 500"
    by (simp add: exact_lib_def)
  from on_depth_update_full_ladder [OF v refl, of "''PLTR''"]
  have "snd (on_depth_update exact_lib ''PLTR'' example_book) = None"
    by blast
  with i show ?thesis
    by (simp add: example_book_update)
qed

text \<open>
  Claim C5 as it is stated fails. With half a share at the second of two bid levels and
  one ask level, the message of that level does not pass the validation of \<^verbatim>\<open>size: int\<close>:
  the callback raises there, having created one message and not three.
\<close>

theorem on_depth_update_counterexample:
  "length (domBids fractional_book) + length (domAsks fractional_book) = 3
   \<and> on_depth_update exact_lib ''PLTR'' fractional_book
       = ([depth_message 0 0 10 300], Some ValidationError)"
  by (simp add: on_depth_update_def new_MarketDepthMessage_def fractional_book_def new_ticker_def
      exact_lib_def depth_message_def)

subsection \<open>Effects of the adapter's building blocks\<close>

lemma ib_request_fields:
  "ticker_subs (fst (ib_request fd ret c s)) = ticker_subs s"
  "l2_depth_subs (fst (ib_request fd ret c s)) = l2_depth_subs s"
  "tasks (fst (ib_request fd ret c s)) = tasks s"
  "contracts (fst (ib_request fd ret c s)) = contracts s"
  "ib (fst (ib_request fd ret c s)) = (case ib s of None \<Rightarrow> None | Some cs \<Rightarrow> Some (cs @ [c]))"
  by (simp_all add: ib_request_def split: option.splits)

lemma log_fields:
  "ticker_subs (log_info m s) = ticker_subs s"
  "l2_depth_subs (log_info m s) = l2_depth_subs s"
  "tasks (log_info m s) = tasks s"
  "ib (log_info m s) = ib s"
  "contracts (log_info m s) = contracts s"
  "ticker_subs (log_warning m s) = ticker_subs s"
  "l2_depth_subs (log_warning m s) = l2_depth_subs s"
  "tasks (log_warning m s) = tasks s"
  "ib (log_warning m s) = ib s"
  "contracts (log_warning m s) = contracts s"
  by (simp_all add: log_info_def log_warning_def)

lemma connected_adapter_fields:
  "contracts connected_adapter ''PLTR'' = Some pltr"
  "contracts connected_adapter ''AAPL'' = None"
  "ib connected_adapter = Some [ConnectAsync ''127.0.0.1'' 7497 1]"
  "ticker_subs connected_adapter = []"
  "l2_depth_subs connected_adapter = []"
  "tasks connected_adapter = []"
  by (simp_all add: connected_adapter_def connect_def ib_request_def accepting_feed_def
      log_info_def adapter_init_def pltr_def)

lemma accepting_feed_raises: "feed_raises accepting_feed cs c = None"
  by (simp add: accepting_feed_def)

lemma accepting_feed_ticker: "feed_ticker accepting_feed cs c = new_ticker (call_contract c)"
  by (simp add: accepting_feed_def)

lemma subscribe_top_of_book_accepted:
  assumes "contracts s symbol = Some c" and "ib s = Some cs"
      and "feed_raises fd cs (ReqMktData c) = None"
  shows "subscribe_top_of_book fd s symbol =
           (log_info (''Subscribed to top-of-book for '' @ symbol)
              (s\<lparr> ib := Some (cs @ [ReqMktData c]),
                  tasks := tasks s @ [MonitorTask symbol (feed_ticker fd cs (ReqMktData c))],
                  ticker_subs := dict_set symbol (feed_ticker fd cs (ReqMktData c)) (ticker_subs s) \<rparr>),
            None)"
  using assms by (simp add: subscribe_top_of_book_def ib_request_def)

lemma subscribed_adapter_fields:
  "contracts subscribed_adapter ''PLTR'' = Some pltr"
  "ib subscribed_adapter =
     Some [ConnectAsync ''127.0.0.1'' 7497 1, ReqMktData pltr, ReqTickByTickData pltr ''Last'',
           ReqMktDepth pltr 5 False]"
  "ticker_subs subscribed_adapter =
     [(''PLTR'', new_ticker (Some pltr)), (''PLTR_tick_Last'', new_ticker (Some pltr))]"
  "l2_depth_subs subscribed_adapter = [(''PLTR'', new_ticker (Some pltr))]"
  "tasks subscribed_adapter =
     [MonitorTask ''PLTR'' (new_ticker (Some pltr)),
      MonitorTicksTask ''PLTR'' ''Last'' (new_ticker (Some pltr))]"
  by (simp_all add: subscribed_adapter_def subscribe_top_of_book_def subscribe_tick_by_tick_def
      subscribe_order_book_def ib_request_def connected_adapter_fields accepting_feed_raises
      accepting_feed_ticker log_info_def)

lemma subscribed_adapter_sweep:
  "sweep_calls subscribed_adapter =
     [CancelMktData pltr, CancelMktData pltr, CancelMktDepth pltr False]"
  by (simp add: sweep_calls_def entry_contracts_def List.map_filter_simps
      subscribed_adapter_fields new_ticker_def)

subsection \<open>Unknown symbols\<close>

text \<open>
  Claim C6. For a symbol that has no registered contract, each of the four subscribe
  operations and the three request operations raises the ValueError that names the symbol,
  and returns the adapter as it was: no feed call is made, no registry, task, queue or log
  entry is added.
\<close>

theorem unknown_symbol_rejected:
  assumes "contracts s symbol = None"
  shows "subscribe_top_of_book fd s symbol
           = (s, Some (ValueError (''Symbol '' @ symbol @ '' not defined. Call define_contracts first.'')))
       \<and> subscribe_tick_by_tick fd s symbol tickType
           = (s, Some (ValueError (''Symbol '' @ symbol @ '' not defined.'')))
       \<and> subscribe_order_book fd s symbol numRows
           = (s, Some (ValueError (''Symbol '' @ symbol @ '' not defined.'')))
       \<and> subscribe_smart_depth fd s symbol numRows
           = (s, Some (ValueError (''Symbol '' @ symbol @ '' not defined.'')))
       \<and> request_historical_data fd s symbol durationStr barSizeSetting whatToShow useRTH
           = (s, Some (ValueError (''Symbol '' @ symbol @ '' not defined.'')))
       \<and> request_fundamental_data fd s symbol reportType
           = (s, Some (ValueError (''Symbol '' @ symbol @ '' not defined.'')))
       \<and> request_fundamental_ratios fd s symbol
           = (s, Some (ValueError (''Symbol '' @ symbol @ '' not defined.'')))"
  using assms
  by (simp add: subscribe_top_of_book_def subscribe_tick_by_tick_def subscribe_order_book_def
      subscribe_smart_depth_def request_historical_data_def request_fundamental_data_def
      request_fundamental_ratios_def)

theorem unknown_symbol_rejected_witness:
  "contracts connected_adapter ''AAPL'' = None
   \<and> subscribe_top_of_book accepting_feed connected_adapter ''AAPL''
       = (connected_adapter,
          Some (ValueError ''Symbol AAPL not defined. Call define_contracts first.''))
   \<and> subscribe_smart_depth accepting_feed connected_adapter ''AAPL'' 10
       = (connected_adapter, Some (ValueError ''Symbol AAPL not defined.''))
   \<and> request_fundamental_ratios accepting_feed connected_adapter ''AAPL''
       = (connected_adapter, Some (ValueError ''Symbol AAPL not defined.''))"
  using unknown_symbol_rejected [OF connected_adapter_fields(2), of accepting_feed]
    connected_adapter_fields(2)
  by simp

subsection \<open>Teardown\<close>

lemma entry_contracts_Cons:
  "entry_contracts (entry # subs) = entry_contracts [entry] @ entry_contracts subs"
  by (simp add: entry_contracts_def List.map_filter_simps split: option.splits)

lemma entry_contracts_all:
  "\<forall>entry \<in> set subs. contract (snd entry) \<noteq> None \<Longrightarrow>
   length (entry_contracts subs) = length subs"
  by (induction subs) (auto simp: entry_contracts_def List.map_filter_simps split: option.splits)

lemma cleanup_mkt_data_entry_fields:
  "tasks (cleanup_mkt_data_entry fd s entry) = tasks s"
  "ib (cleanup_mkt_data_entry fd s entry) =
     (case ib s of None \<Rightarrow> None
      | Some cs \<Rightarrow> Some (cs @ map CancelMktData (entry_contracts [entry])))"
  by (cases "ib s";
      auto simp: cleanup_mkt_data_entry_def cancel_mkt_data_entry_def entry_contracts_def
        List.map_filter_simps ib_request_def log_info_def log_warning_def
        split: option.splits sum.splits prod.splits)+

lemma cleanup_mkt_depth_entry_fields:
  "tasks (cleanup_mkt_depth_entry fd s entry) = tasks s"
  "ib (cleanup_mkt_depth_entry fd s entry) =
     (case ib s of None \<Rightarrow> None
      | Some cs \<Rightarrow> Some (cs @ map (\<lambda>c. CancelMktDepth c False) (entry_contracts [entry])))"
  by (cases "ib s";
      auto simp: cleanup_mkt_depth_entry_def cancel_mkt_depth_entry_def entry_contracts_def
        List.map_filter_simps ib_request_def log_info_def log_warning_def
        split: option.splits sum.splits prod.splits)+

lemma sweep_mkt_data:
  "tasks (foldl (cleanup_mkt_data_entry fd) s subs) = tasks s
   \<and> ib (foldl (cleanup_mkt_data_entry fd) s subs) =
     (case ib s of None \<Rightarrow> None
      | Some cs \<Rightarrow> Some (cs @ map CancelMktData (entry_contracts subs)))"
proof (induction subs arbitrary: s)
  case Nil
  show ?case by (simp add: entry_contracts_def List.map_filter_simps split: option.splits)
next
  case (Cons entry subs)
  show ?case
    using Cons.IH [of "cleanup_mkt_data_entry fd s entry"]
    by (simp add: cleanup_mkt_data_entry_fields entry_contracts_Cons [of entry subs]
        split: option.splits)
qed

lemma sweep_mkt_depth:
  "tasks (foldl (cleanup_mkt_depth_entry fd) s subs) = tasks s
   \<and> ib (foldl (cleanup_mkt_depth_entry fd) s subs) =
     (case ib s of None \<Rightarrow> None
      | Some cs \<Rightarrow> Some (cs @ map (\<lambda>c. CancelMktDepth c False) (entry_contracts subs)))"
proof (induction subs arbitrary: s)
  case Nil
  show ?case by (simp add: entry_contracts_def List.map_filter_simps split: option.splits)
next
  case (Cons entry subs)
  show ?case
    using Cons.IH [of "cleanup_mkt_depth_entry fd s entry"]
    by (simp add: cleanup_mkt_depth_entry_fields entry_contracts_Cons [of entry subs]
        split: option.splits)
qed

lemma cleanup_subscriptions_effect:
  "snd (cleanup_subscriptions fd s) = None"
  "ticker_subs (fst (cleanup_subscriptions fd s)) = []"
  "l2_depth_subs (fst (cleanup_subscriptions fd s)) = []"
  "tasks (fst (cleanup_subscriptions fd s)) = tasks s"
  "ib (fst (cleanup_subscriptions fd s)) =
     (case ib s of None \<Rightarrow> None | Some cs \<Rightarrow> Some (cs @ sweep_calls s))"
  by (simp_all add: cleanup_subscriptions_def Let_def sweep_mkt_data sweep_mkt_depth sweep_calls_def
      split: option.splits)

lemma disconnect_connected:
  assumes "ib s = Some cs"
  shows "ticker_subs (fst (disconnect fd s)) = []
       \<and> l2_depth_subs (fst (disconnect fd s)) = []
       \<and> ib (fst (disconnect fd s)) = Some (cs @ sweep_calls s @ [Disconnect])
       \<and> tasks (fst (disconnect fd s)) = tasks s"
proof -
  obtain s1 where s1: "cleanup_subscriptions fd s = (s1, None)"
    using cleanup_subscriptions_effect(1) [of fd s] by (cases "cleanup_subscriptions fd s") auto
  have f: "ticker_subs s1 = []" "l2_depth_subs s1 = []" "tasks s1 = tasks s"
    "ib s1 = Some (cs @ sweep_calls s)"
    using cleanup_subscriptions_effect(2-5) [of fd s] s1 assms by simp_all
  obtain s2 r where s2: "ib_request fd no_value Disconnect s1 = (s2, r)"
    by (cases "ib_request fd no_value Disconnect s1") auto
  have g: "ticker_subs s2 = []" "l2_depth_subs s2 = []" "tasks s2 = tasks s"
    "ib s2 = Some (cs @ sweep_calls s @ [Disconnect])"
    using ib_request_fields [of fd no_value Disconnect s1] s2 f by simp_all
  show ?thesis
    using assms s1 s2 g by (cases r) (simp_all add: disconnect_def log_fields)
qed

lemma disconnect_outcome:
  assumes "ib s = Some cs"
  shows "snd (disconnect fd s) = feed_raises fd (cs @ sweep_calls s) Disconnect"
proof -
  obtain s1 where s1: "cleanup_subscriptions fd s = (s1, None)"
    using cleanup_subscriptions_effect(1) [of fd s] by (cases "cleanup_subscriptions fd s") auto
  have f: "ib s1 = Some (cs @ sweep_calls s)"
    using cleanup_subscriptions_effect(5) [of fd s] s1 assms by simp
  show ?thesis
    using assms s1 f by (simp add: disconnect_def ib_request_def split: option.splits)
qed

text \<open>
  Claim C9. Whatever the registries hold and whichever cancel calls the feed makes fail,
  \<^verbatim>\<open>cleanup_subscriptions\<close> raises nothing and leaves both registries empty. With a
  connection object it makes one cancel call for every entry whose ticker carries a
  contract, in iteration order, first over the ticker registry and then over the depth
  registry, going on after a call that fails; when every ticker carries a contract (as the
  tickers the feed returns do) that is one call per registry entry.
\<close>

theorem cleanup_subscriptions_total_sweep:
  "snd (cleanup_subscriptions fd s) = None
   \<and> ticker_subs (fst (cleanup_subscriptions fd s)) = []
   \<and> l2_depth_subs (fst (cleanup_subscriptions fd s)) = []
   \<and> (\<forall>cs. ib s = Some cs \<longrightarrow> ib (fst (cleanup_subscriptions fd s)) = Some (cs @ sweep_calls s))
   \<and> ((\<forall>entry \<in> set (ticker_subs s @ l2_depth_subs s). contract (snd entry) \<noteq> None) \<longrightarrow>
        length (sweep_calls s) = length (ticker_subs s) + length (l2_depth_subs s))"
  by (simp add: cleanup_subscriptions_effect sweep_calls_def entry_contracts_all)

text \<open>The feed rejects both market data cancellations; the depth cancellation is still
  made, nothing is raised and the registries end empty.\<close>

theorem cleanup_subscriptions_total_sweep_witness:
  "feed_raises cancel_rejecting_feed
      [ConnectAsync ''127.0.0.1'' 7497 1, ReqMktData pltr, ReqTickByTickData pltr ''Last'',
       ReqMktDepth pltr 5 False] (CancelMktData pltr) = Some (FeedError ''not connected'')
   \<and> length (ticker_subs subscribed_adapter) = 2
   \<and> length (l2_depth_subs subscribed_adapter) = 1
   \<and> snd (cleanup_subscriptions cancel_rejecting_feed subscribed_adapter) = None
   \<and> ticker_subs (fst (cleanup_subscriptions cancel_rejecting_feed subscribed_adapter)) = []
   \<and> l2_depth_subs (fst (cleanup_subscriptions cancel_rejecting_feed subscribed_adapter)) = []
   \<and> ib (fst (cleanup_subscriptions cancel_rejecting_feed subscribed_adapter)) =
       Some [ConnectAsync ''127.0.0.1'' 7497 1, ReqMktData pltr, ReqTickByTickData pltr ''Last'',
             ReqMktDepth pltr 5 False,
             CancelMktData pltr, CancelMktData pltr, CancelMktDepth pltr False]"
  using cleanup_subscriptions_total_sweep [of cancel_rejecting_feed subscribed_adapter]
  by (simp add: subscribed_adapter_fields subscribed_adapter_sweep cancel_rejecting_feed_def
      accepting_feed_def)

text \<open>
  Claim C1, as amended. On an adapter that holds a connection object, \<^verbatim>\<open>disconnect()\<close>
  runs the cancel sweep over both registries and empties them before it calls the
  connection's disconnect: the calls received by the connection are the earlier ones, then
  the cancel calls of the sweep, then the disconnect. The monitor tasks are not touched:
  the tasks after the call are the tasks before it.
\<close>

theorem disconnect_sweeps_before_teardown:
  assumes "ib s = Some cs"
  shows "ticker_subs (fst (disconnect fd s)) = []
       \<and> l2_depth_subs (fst (disconnect fd s)) = []
       \<and> ib (fst (disconnect fd s)) = Some (cs @ sweep_calls s @ [Disconnect])
       \<and> tasks (fst (disconnect fd s)) = tasks s"
  using assms by (rule disconnect_connected)

theorem disconnect_sweeps_before_teardown_witness:
  "ib subscribed_adapter =
     Some [ConnectAsync ''127.0.0.1'' 7497 1, ReqMktData pltr, ReqTickByTickData pltr ''Last'',
           ReqMktDepth pltr 5 False]
   \<and> ticker_subs (fst (disconnect accepting_feed subscribed_adapter)) = []
   \<and> l2_depth_subs (fst (disconnect accepting_feed subscribed_adapter)) = []
   \<and> ib (fst (disconnect accepting_feed subscribed_adapter)) =
       Some [ConnectAsync ''127.0.0.1'' 7497 1, ReqMktData pltr, ReqTickByTickData pltr ''Last'',
             ReqMktDepth pltr 5 False,
             CancelMktData pltr, CancelMktData pltr, CancelMktDepth pltr False, Disconnect]"
  using disconnect_sweeps_before_teardown [OF subscribed_adapter_fields(2), of accepting_feed]
  by (simp add: subscribed_adapter_fields subscribed_adapter_sweep)

text \<open>
  Claim C1 as it is stated fails. After a quote and a tick-by-tick subscription,
  \<^verbatim>\<open>disconnect()\<close> returns normally and the two monitor tasks are still there: the adapter
  keeps no handle on a task it creates and never cancels one.
\<close>

theorem disconnect_counterexample:
  "snd (disconnect accepting_feed subscribed_adapter) = None
   \<and> tasks (fst (disconnect accepting_feed subscribed_adapter)) =
       [MonitorTask ''PLTR'' (new_ticker (Some pltr)),
        MonitorTicksTask ''PLTR'' ''Last'' (new_ticker (Some pltr))]"
  using disconnect_connected [OF subscribed_adapter_fields(2), of accepting_feed]
    disconnect_outcome [OF subscribed_adapter_fields(2), of accepting_feed]
  by (simp add: subscribed_adapter_fields accepting_feed_raises)

subsection \<open>Subscribing\<close>

lemma dict_set_lookup: "map_of (dict_set k v subs) k = Some v"
  by (induction subs) auto

lemma dict_set_keys: "fst ` set (dict_set k v subs) = insert k (fst ` set subs)"
  by (induction subs) force+

lemma dict_set_distinct:
  "distinct (map fst subs) \<Longrightarrow> distinct (map fst (dict_set k v subs))"
  by (induction subs) (auto simp: dict_set_keys)

lemma filter_absent_key:
  "k \<notin> set (map fst subs) \<Longrightarrow> filter (\<lambda>entry. fst entry = k) subs = []"
  by (induction subs) auto

lemma dict_set_one_entry:
  "distinct (map fst subs) \<Longrightarrow> length (filter (\<lambda>entry. fst entry = k) (dict_set k v subs)) = 1"
  by (induction subs) (auto simp: filter_absent_key)

text \<open>
  Claim C8, as amended. On a connected adapter whose feed accepts both requests, two calls
  of the quote subscribe operation for the same registered symbol leave exactly one entry
  under that symbol in the ticker registry, holding the ticker of the second request. Both
  requests reach the feed, and each call adds a monitor task: the task of the first call is
  still there after the second.
\<close>

theorem subscribe_top_of_book_twice:
  assumes "contracts s symbol = Some c" and "ib s = Some cs"
      and "feed_raises fd cs (ReqMktData c) = None"
      and "feed_raises fd (cs @ [ReqMktData c]) (ReqMktData c) = None"
      and "distinct (map fst (ticker_subs s))"
      and "s2 = fst (subscribe_top_of_book fd (fst (subscribe_top_of_book fd s symbol)) symbol)"
  shows "length (filter (\<lambda>entry. fst entry = symbol) (ticker_subs s2)) = 1
       \<and> map_of (ticker_subs s2) symbol = Some (feed_ticker fd (cs @ [ReqMktData c]) (ReqMktData c))
       \<and> ib s2 = Some (cs @ [ReqMktData c, ReqMktData c])
       \<and> tasks s2 = tasks s @ [MonitorTask symbol (feed_ticker fd cs (ReqMktData c)),
                               MonitorTask symbol (feed_ticker fd (cs @ [ReqMktData c]) (ReqMktData c))]"
proof -
  define s1 where "s1 = fst (subscribe_top_of_book fd s symbol)"
  have s1: "contracts s1 symbol = Some c" "ib s1 = Some (cs @ [ReqMktData c])"
    "tasks s1 = tasks s @ [MonitorTask symbol (feed_ticker fd cs (ReqMktData c))]"
    "ticker_subs s1 = dict_set symbol (feed_ticker fd cs (ReqMktData c)) (ticker_subs s)"
    unfolding s1_def subscribe_top_of_book_accepted [OF assms(1) assms(2) assms(3)]
    using assms(1) by (simp_all add: log_info_def)
  have d: "distinct (map fst (ticker_subs s1))"
    unfolding s1(4) by (rule dict_set_distinct [OF assms(5)])
  have s2: "s2 = fst (subscribe_top_of_book fd s1 symbol)"
    unfolding assms(6) s1_def ..
  show ?thesis
    unfolding s2 subscribe_top_of_book_accepted [OF s1(1) s1(2) assms(4)]
    using s1(3) d by (simp add: log_info_def dict_set_lookup dict_set_one_entry)
qed

theorem subscribe_top_of_book_twice_witness:
  "contracts connected_adapter ''PLTR'' = Some pltr
   \<and> ib connected_adapter = Some [ConnectAsync ''127.0.0.1'' 7497 1]
   \<and> distinct (map fst (ticker_subs connected_adapter))
   \<and> length (filter (\<lambda>entry. fst entry = ''PLTR'')
        (ticker_subs (fst (subscribe_top_of_book accepting_feed
           (fst (subscribe_top_of_book accepting_feed connected_adapter ''PLTR'')) ''PLTR'')))) = 1
   \<and> length (tasks (fst (subscribe_top_of_book accepting_feed
           (fst (subscribe_top_of_book accepting_feed connected_adapter ''PLTR'')) ''PLTR''))) = 2"
proof -
  have d: "distinct (map fst (ticker_subs connected_adapter))"
    by (simp add: connected_adapter_fields)
  show ?thesis
    using subscribe_top_of_book_twice
      [OF connected_adapter_fields(1) connected_adapter_fields(3)
          accepting_feed_raises accepting_feed_raises d refl]
    by (simp add: connected_adapter_fields)
qed

text \<open>
  Claim C8 as it is stated fails in its second half. After two quote subscriptions of
  PLTR there are two monitor tasks for PLTR: the first was neither returned nor replaced,
  it goes on polling and emitting beside the second.
\<close>

theorem subscribe_top_of_book_twice_counterexample:
  "length (filter (is_monitor_of ''PLTR'')
     (tasks (fst (subscribe_top_of_book accepting_feed
        (fst (subscribe_top_of_book accepting_feed connected_adapter ''PLTR'')) ''PLTR'')))) = 2"
  using subscribe_top_of_book_accepted
    [OF connected_adapter_fields(1) connected_adapter_fields(3) accepting_feed_raises]
  by (simp add: subscribe_top_of_book_def ib_request_def accepting_feed_raises log_info_def
      connected_adapter_fields)

text \<open>
  Claim C7, as amended. For a symbol with a registered contract on a connected adapter, if
  the feed rejects the smart depth request and accepts the standard depth request that
  follows, \<^verbatim>\<open>subscribe_smart_depth\<close> succeeds: it logs a warning, behaves as
  \<^verbatim>\<open>subscribe_order_book\<close> from there on, and registers the standard depth ticker under
  the symbol.
\<close>

theorem subscribe_smart_depth_fallback:
  assumes "contracts s symbol = Some c" and "ib s = Some cs"
      and "feed_raises fd cs (ReqMktDepth c numRows True) = Some e"
      and "feed_raises fd (cs @ [ReqMktDepth c numRows True]) (ReqMktDepth c numRows False) = None"
  shows "snd (subscribe_smart_depth fd s symbol numRows) = None
       \<and> subscribe_smart_depth fd s symbol numRows =
           subscribe_order_book fd
             (log_warning (''Smart depth not available for '' @ symbol @ '': '' @ error_text e)
                (s\<lparr> ib := Some (cs @ [ReqMktDepth c numRows True]) \<rparr>)) symbol numRows
       \<and> map_of (l2_depth_subs (fst (subscribe_smart_depth fd s symbol numRows))) symbol
           = Some (feed_ticker fd (cs @ [ReqMktDepth c numRows True]) (ReqMktDepth c numRows False))
       \<and> log (fst (subscribe_smart_depth fd s symbol numRows)) =
           log s @ [(WARNING, ''Smart depth not available for '' @ symbol @ '': '' @ error_text e),
                    (INFO, ''Subscribed to market depth for '' @ symbol @ '' (v2)'')]
       \<and> ib (fst (subscribe_smart_depth fd s symbol numRows))
           = Some (cs @ [ReqMktDepth c numRows True, ReqMktDepth c numRows False])"
  using assms
  by (simp add: subscribe_smart_depth_def subscribe_order_book_def ib_request_def
      log_warning_def log_info_def dict_set_lookup)

theorem subscribe_smart_depth_fallback_witness:
  "contracts connected_adapter ''PLTR'' = Some pltr
   \<and> ib connected_adapter = Some [ConnectAsync ''127.0.0.1'' 7497 1]
   \<and> feed_raises smart_rejecting_feed [ConnectAsync ''127.0.0.1'' 7497 1] (ReqMktDepth pltr 10 True)
        = Some (FeedError ''smart depth not supported'')
   \<and> feed_raises smart_rejecting_feed
        ([ConnectAsync ''127.0.0.1'' 7497 1] @ [ReqMktDepth pltr 10 True]) (ReqMktDepth pltr 10 False)
        = None
   \<and> snd (subscribe_smart_depth smart_rejecting_feed connected_adapter ''PLTR'' 10) = None
   \<and> ib (fst (subscribe_smart_depth smart_rejecting_feed connected_adapter ''PLTR'' 10))
        = Some [ConnectAsync ''127.0.0.1'' 7497 1, ReqMktDepth pltr 10 True, ReqMktDepth pltr 10 False]"
proof -
  have r: "feed_raises smart_rejecting_feed [ConnectAsync ''127.0.0.1'' 7497 1] (ReqMktDepth pltr 10 True)
        = Some (FeedError ''smart depth not supported'')"
    by (simp add: smart_rejecting_feed_def accepting_feed_def)
  have a: "feed_raises smart_rejecting_feed
             ([ConnectAsync ''127.0.0.1'' 7497 1] @ [ReqMktDepth pltr 10 True]) (ReqMktDepth pltr 10 False)
        = None"
    by (simp add: smart_rejecting_feed_def accepting_feed_def)
  have c: "[ConnectAsync ''127.0.0.1'' 7497 1] @ [ReqMktDepth pltr 10 True, ReqMktDepth pltr 10 False]
        = [ConnectAsync ''127.0.0.1'' 7497 1, ReqMktDepth pltr 10 True, ReqMktDepth pltr 10 False]"
    by simp
  from subscribe_smart_depth_fallback
      [OF connected_adapter_fields(1) connected_adapter_fields(3) r a]
  have "snd (subscribe_smart_depth smart_rejecting_feed connected_adapter ''PLTR'' 10) = None"
    and "ib (fst (subscribe_smart_depth smart_rejecting_feed connected_adapter ''PLTR'' 10))
        = Some [ConnectAsync ''127.0.0.1'' 7497 1, ReqMktDepth pltr 10 True, ReqMktDepth pltr 10 False]"
    unfolding c by blast+
  with connected_adapter_fields(1) connected_adapter_fields(3) r a show ?thesis
    by blast
qed

text \<open>
  Claim C7 as it is stated fails. PLTR has a registered contract and the feed rejects the
  smart depth request; it rejects the standard depth request of the fallback too, and that
  error reaches the caller.
\<close>

theorem subscribe_smart_depth_counterexample:
  "contracts connected_adapter ''PLTR'' = Some pltr
   \<and> feed_raises depth_rejecting_feed [ConnectAsync ''127.0.0.1'' 7497 1] (ReqMktDepth pltr 10 True)
        = Some (FeedError ''no market depth'')
   \<and> snd (subscribe_smart_depth depth_rejecting_feed connected_adapter ''PLTR'' 10)
        = Some (FeedError ''no market depth'')"
  by (simp add: connected_adapter_fields subscribe_smart_depth_def subscribe_order_book_def
      ib_request_def depth_rejecting_feed_def accepting_feed_def log_warning_def)

end
